theory Spec2Isabelle
  imports Main "HOL-Library.Word"
begin

section \<open>The curse signing daemon (cursed): TLS issuance, CA bootstrap, configuration\<close>

text \<open>
  A shallow embedding of \<^verbatim>\<open>src/cursed/main.go\<close> (configuration, duration conversion, CA
  bootstrap and loading, client certificate signing) and of the TLS request handler
  (\<^verbatim>\<open>tlsCertHandler\<close>, \<^verbatim>\<open>validateTLSParams\<close>).

  Conventions.
  \<^item> A Go \<^verbatim>\<open>string\<close> or \<^verbatim>\<open>[]byte\<close> is a \<open>string\<close> (a list of 8-bit characters).
  \<^item> A Go \<^verbatim>\<open>int\<close> (64-bit platform) and a \<^verbatim>\<open>time.Duration\<close> (int64 nanoseconds) are
    \<open>64 word\<close>; \<open>sint\<close> reads the signed value and arithmetic wraps around.
  \<^item> A \<^verbatim>\<open>time.Time\<close> is an \<open>int\<close>: nanoseconds since the epoch.
  \<^item> A \<^verbatim>\<open>*big.Int\<close> is an \<open>int\<close>.
  \<^item> An \<^verbatim>\<open>error\<close> is the \<open>string\<close> of its message; \<open>None\<close> is \<^verbatim>\<open>nil\<close>.
  \<^item> A pointer that may be \<^verbatim>\<open>nil\<close> is an \<open>option\<close>.
\<close>

subsection \<open>Strings as runes\<close>

text \<open>
  Go's \<^verbatim>\<open>regexp\<close> reads its input as UTF-8: one rune per step, and the rune U+FFFD of width
  one for a byte that starts no valid encoding. \<open>DecodeRune\<close> follows
  \<^verbatim>\<open>utf8.DecodeRuneInString\<close> (first byte classes, the accepted range of the second byte,
  continuation bytes 0x80..0xBF); \<open>runes\<close> is the loop over the whole string.
\<close>

type_synonym rune = nat

definition rn :: "char \<Rightarrow> rune" where
  "rn c = of_char c"

definition RuneError :: rune where
  "RuneError = 65533"

definition DecodeRune :: "string \<Rightarrow> rune \<times> nat" where
  "DecodeRune s =
     (case s of
        [] \<Rightarrow> (RuneError, 0)
      | c0 # t0 \<Rightarrow>
          (let s0 = rn c0 in
           if s0 < 128 then (s0, 1)
           else if s0 < 194 \<or> 244 < s0 then (RuneError, 1)
           else
             (let sz = (if s0 < 224 then 2 else if s0 < 240 then 3 else (4::nat));
                  lo = (if s0 = 224 then 160 else if s0 = 240 then 144 else (128::nat));
                  hi = (if s0 = 237 then 159 else if s0 = 244 then 143 else (191::nat))
              in if length s < sz then (RuneError, 1)
                 else
                   (let s1 = rn (s ! 1) in
                    if s1 < lo \<or> hi < s1 then (RuneError, 1)
                    else if sz \<le> 2 then ((s0 mod 32) * 64 + s1 mod 64, 2)
                    else
                      (let s2 = rn (s ! 2) in
                       if s2 < 128 \<or> 191 < s2 then (RuneError, 1)
                       else if sz \<le> 3
                         then ((s0 mod 16) * 4096 + (s1 mod 64) * 64 + s2 mod 64, 3)
                       else
                         (let s3 = rn (s ! 3) in
                          if s3 < 128 \<or> 191 < s3 then (RuneError, 1)
                          else ((s0 mod 8) * 262144 + (s1 mod 64) * 4096 + (s2 mod 64) * 64
                                  + s3 mod 64, 4)))))))"

function runes :: "string \<Rightarrow> rune list" where
  "runes s =
     (if s = [] then []
      else fst (DecodeRune s) # runes (drop (snd (DecodeRune s)) s))"
  by pat_completeness auto

termination
proof (relation "measure length")
  show "wf (measure length)" by simp
next
  fix s :: string
  assume "s \<noteq> []"
  then have "0 < snd (DecodeRune s)"
    by (cases s) (simp_all add: DecodeRune_def Let_def)
  with \<open>s \<noteq> []\<close> show "(drop (snd (DecodeRune s)) s, s) \<in> measure length"
    by simp
qed

declare runes.simps [simp del]

subsection \<open>Regular expressions\<close>

text \<open>
  The syntax tree of a parsed expression, with the operators of Go's \<^verbatim>\<open>regexp/syntax\<close> that
  the username pattern uses. A character class carries the fold-case flag \<^verbatim>\<open>(?i)\<close> and
  its ranges. \<^verbatim>\<open>x+\<close> is \<^verbatim>\<open>xx*\<close> and \<^verbatim>\<open>x{0,n}\<close> is \<^verbatim>\<open>(x(x(...)?)?)?\<close>, as the library's
  simplifier rewrites them.
\<close>

datatype regex =
    NoMatch
  | EmptyMatch
  | CharClass bool "(rune \<times> rune) list"
  | Concat regex regex
  | Alternate regex regex
  | Star regex

definition Plus :: "regex \<Rightarrow> regex" where
  "Plus r = Concat r (Star r)"

primrec Upto :: "regex \<Rightarrow> nat \<Rightarrow> regex" where
  "Upto r 0 = EmptyMatch"
| "Upto r (Suc n) = Alternate EmptyMatch (Concat r (Upto r n))"

primrec Repeat :: "regex \<Rightarrow> nat \<Rightarrow> nat \<Rightarrow> regex" where
  "Repeat r 0 n = Upto r n"
| "Repeat r (Suc m) n = Concat r (Repeat r m (n - 1))"

definition in_ranges :: "(rune \<times> rune) list \<Rightarrow> rune \<Rightarrow> bool" where
  "in_ranges cc r = list_ex (\<lambda>(lo, hi). lo \<le> r \<and> r \<le> hi) cc"

text \<open>
  The runes that fold to the same case as \<open>r\<close> (\<^verbatim>\<open>unicode.SimpleFold\<close>), as far as an ASCII
  class can tell: an ASCII letter and its other case, with the Kelvin sign U+212A in the
  orbit of k and the long s U+017F in the orbit of s. No other rune outside ASCII folds
  to an ASCII one.
\<close>

definition fold_orbit :: "rune \<Rightarrow> rune list" where
  "fold_orbit r =
     (if 65 \<le> r \<and> r \<le> 90 then
        [r, r + 32] @ (if r = 75 then [8490] else if r = 83 then [383] else [])
      else if 97 \<le> r \<and> r \<le> 122 then
        [r, r - 32] @ (if r = 107 then [8490] else if r = 115 then [383] else [])
      else if r = 8490 then [r, 75, 107]
      else if r = 383 then [r, 83, 115]
      else [r])"

definition class_matches :: "bool \<Rightarrow> (rune \<times> rune) list \<Rightarrow> rune \<Rightarrow> bool" where
  "class_matches foldcase cc r =
     (if foldcase then list_ex (in_ranges cc) (fold_orbit r) else in_ranges cc r)"

primrec nullable :: "regex \<Rightarrow> bool" where
  "nullable NoMatch = False"
| "nullable EmptyMatch = True"
| "nullable (CharClass f cc) = False"
| "nullable (Concat a b) = (nullable a \<and> nullable b)"
| "nullable (Alternate a b) = (nullable a \<or> nullable b)"
| "nullable (Star a) = True"

primrec deriv :: "rune \<Rightarrow> regex \<Rightarrow> regex" where
  "deriv x NoMatch = NoMatch"
| "deriv x EmptyMatch = NoMatch"
| "deriv x (CharClass f cc) = (if class_matches f cc x then EmptyMatch else NoMatch)"
| "deriv x (Concat a b) =
     (if nullable a then Alternate (Concat (deriv x a) b) (deriv x b)
      else Concat (deriv x a) b)"
| "deriv x (Alternate a b) = Alternate (deriv x a) (deriv x b)"
| "deriv x (Star a) = Concat (deriv x a) (Star a)"

primrec full_match :: "regex \<Rightarrow> rune list \<Rightarrow> bool" where
  "full_match r [] = nullable r"
| "full_match r (x # xs) = full_match (deriv x r) xs"

text \<open>
  \<^verbatim>\<open>MatchString\<close> for an expression anchored at both ends by \<^verbatim>\<open>^\<close> and \<^verbatim>\<open>$\<close> (without the
  multi-line flag these are the beginning and the end of the text): the whole string must
  match.
\<close>

definition MatchString :: "regex \<Rightarrow> string \<Rightarrow> bool" where
  "MatchString re s = full_match re (runes s)"

text \<open>
  \<^verbatim>\<open>getConf\<close>, main.go line 231:
  \<^verbatim>\<open>regexp.MustCompile(`(?i)^([a-z_][a-z0-9_-]{0,31}|[a-f0-9]+)$`)\<close>.
\<close>

definition userRegex_re :: regex where
  "userRegex_re =
     Alternate
       (Concat
          (CharClass True [(rn CHR ''a'', rn CHR ''z''), (rn CHR ''_'', rn CHR ''_'')])
          (Repeat
             (CharClass True [(rn CHR ''a'', rn CHR ''z''), (rn CHR ''0'', rn CHR ''9''),
                              (rn CHR ''_'', rn CHR ''_''), (rn CHR ''-'', rn CHR ''-'')])
             0 31))
       (Plus (CharClass True [(rn CHR ''a'', rn CHR ''f''), (rn CHR ''0'', rn CHR ''9'')]))"

text \<open>The words of the username rule, on characters.\<close>

definition is_letter :: "char \<Rightarrow> bool" where
  "is_letter c = ((97 \<le> rn c \<and> rn c \<le> 122) \<or> (65 \<le> rn c \<and> rn c \<le> 90))"

definition is_digit :: "char \<Rightarrow> bool" where
  "is_digit c = (48 \<le> rn c \<and> rn c \<le> 57)"

definition is_hex :: "char \<Rightarrow> bool" where
  "is_hex c = (is_digit c \<or> (97 \<le> rn c \<and> rn c \<le> 102) \<or> (65 \<le> rn c \<and> rn c \<le> 70))"

definition is_name_start :: "char \<Rightarrow> bool" where
  "is_name_start c = (is_letter c \<or> c = CHR ''_'')"

definition is_name_rest :: "char \<Rightarrow> bool" where
  "is_name_rest c = (is_letter c \<or> is_digit c \<or> c = CHR ''_'' \<or> c = CHR ''-'')"

definition is_hex_rune :: "rune \<Rightarrow> bool" where
  "is_hex_rune r = ((48 \<le> r \<and> r \<le> 57) \<or> (97 \<le> r \<and> r \<le> 102) \<or> (65 \<le> r \<and> r \<le> 70))"

text \<open>The three character classes of the pattern, as predicates on runes.\<close>

definition start_class :: "rune \<Rightarrow> bool" where
  "start_class = class_matches True [(rn CHR ''a'', rn CHR ''z''), (rn CHR ''_'', rn CHR ''_'')]"

definition rest_class :: "rune \<Rightarrow> bool" where
  "rest_class = class_matches True [(rn CHR ''a'', rn CHR ''z''), (rn CHR ''0'', rn CHR ''9''),
                              (rn CHR ''_'', rn CHR ''_''), (rn CHR ''-'', rn CHR ''-'')]"

definition hex_class :: "rune \<Rightarrow> bool" where
  "hex_class = class_matches True [(rn CHR ''a'', rn CHR ''f''), (rn CHR ''0'', rn CHR ''9'')]"

subsection \<open>Time, certificates, requests, keys\<close>

text \<open>
  \<^verbatim>\<open>time.Time\<close> and \<^verbatim>\<open>time.Duration\<close>, with the constants \<^verbatim>\<open>time.Second\<close> and
  \<^verbatim>\<open>time.Hour\<close> and \<^verbatim>\<open>Time.Add\<close>.
\<close>

type_synonym time = int

type_synonym duration = "64 word"

definition Second :: duration where "Second = 1000000000"

definition Hour :: duration where "Hour = 3600 * Second"

definition time_Add :: "time \<Rightarrow> duration \<Rightarrow> time" where
  "time_Add t d = t + sint d"

text \<open>
  \<^verbatim>\<open>*ecdsa.PrivateKey\<close>, \<^verbatim>\<open>*x509.Certificate\<close> and \<^verbatim>\<open>*x509.CertificateRequest\<close>, with the
  fields the code and the specification speak of. \<open>AuthorityKey\<close> is the public key of
  the key that signed the certificate: a certificate is self-signed when it is its own
  \<open>cert_PublicKey\<close>.
\<close>

record PrivateKey =
  key_Curve :: string
  key_D :: nat
  key_Public :: string

record Certificate =
  Subject_CommonName :: string
  DNSNames :: "string list"
  SerialNumber :: int
  cert_NotBefore :: time
  cert_NotAfter :: time
  cert_IsCA :: bool
  cert_PublicKey :: string
  ExtKeyUsage :: "string list"
  AuthorityKey :: string

record CertificateRequest =
  req_Subject_CommonName :: string
  req_PublicKey :: string
  req_Signature :: string

text \<open>
  \<^verbatim>\<open>certOpts\<close>, as \<^verbatim>\<open>genTLSCACert\<close> and \<^verbatim>\<open>signTLSClientCert\<close> fill it (the type is declared
  in a file that is not in \<^verbatim>\<open>src/\<close>); a field a caller leaves out has its zero value.
\<close>

record certOpts =
  CA :: "Certificate option"
  CAKey :: "PrivateKey option"
  CSR :: "CertificateRequest option"
  CN :: string
  IsCA :: bool
  NotBefore :: time
  NotAfter :: time
  SAN :: string
  Serial :: int

text \<open>
  The struct \<^verbatim>\<open>config\<close>: its exported fields, which \<^verbatim>\<open>viper.Unmarshal\<close> fills, and then
  its unexported ones. The open database \<^verbatim>\<open>conf.db\<close> is the \<open>db\<close> of the state below, and
  \<^verbatim>\<open>sshCASigner\<close> is kept as an opaque value.
\<close>

record options =
  Addr :: string
  CAKeyFile :: string
  DBFile :: string
  Duration :: "64 word"
  Extensions :: "string list"
  ForceCmd :: bool
  MaxKeyAge :: "64 word"
  Port :: "64 word"
  RequireClientIP :: bool
  SSLBrokerCert :: string
  SSLBrokerHostname :: string
  SSLBrokerKey :: string
  SSLCA :: string
  SSLCADuration :: "64 word"
  SSLCert :: string
  SSLCertHostname :: string
  SSLKey :: string
  SSLKeyCurve :: string
  SSLDuration :: "64 word"
  UserHeader :: string

record config = options +
  brokerFP :: string
  bucketNameFP :: string
  bucketNameSerial :: string
  dur :: duration
  exts :: "string \<rightharpoonup> string"
  keyLifeSpan :: duration
  sshCASigner :: "string option"
  tlsDur :: duration
  tlsCACert :: "Certificate option"
  tlsCAKey :: "PrivateKey option"
  userRegex :: regex

text \<open>The defaults \<^verbatim>\<open>init\<close> gives viper (main.go lines 151 to 170).\<close>

definition viper_defaults :: options where
  "viper_defaults =
     \<lparr> Addr = ''127.0.0.1'',
       CAKeyFile = ''/opt/curse/etc/user_ca'',
       DBFile = ''/opt/curse/etc/cursed.db'',
       Duration = 2 * 60,
       Extensions = [''permit-pty''],
       ForceCmd = False,
       MaxKeyAge = 90,
       Port = 81,
       RequireClientIP = True,
       SSLBrokerCert = ''/opt/curse/etc/broker.crt'',
       SSLBrokerHostname = ''localhost'',
       SSLBrokerKey = ''/opt/curse/etc/broker.key'',
       SSLCA = ''/opt/curse/etc/cursed.crt'',
       SSLCADuration = 730,
       SSLCert = ''/opt/curse/etc/cursed.crt'',
       SSLCertHostname = ''localhost'',
       SSLKey = ''/opt/curse/etc/cursed.key'',
       SSLKeyCurve = ''p384'',
       SSLDuration = 12 * 60,
       UserHeader = ''REMOTE_USER'' \<rparr>"

text \<open>\<^verbatim>\<open>validateExtensions\<close>: the loop over the configured names, with its two results.\<close>

definition validExts :: "string list" where
  "validExts = [''permit-X11-forwarding'', ''permit-agent-forwarding'',
                ''permit-port-forwarding'', ''permit-pty'', ''permit-user-rc'']"

fun validateExtensions_loop ::
  "string list \<Rightarrow> (string \<rightharpoonup> string) \<Rightarrow> string list \<Rightarrow> (string \<rightharpoonup> string) \<times> string list" where
  "validateExtensions_loop [] extmap errSlice = (extmap, errSlice)"
| "validateExtensions_loop (e # rest) extmap errSlice =
     (if e \<in> set validExts then validateExtensions_loop rest (extmap(e \<mapsto> [])) errSlice
      else validateExtensions_loop rest extmap
             (errSlice @ [''Invalid extension in config: '' @ e]))"

definition validateExtensions :: "string list \<Rightarrow> (string \<rightharpoonup> string) \<times> string list" where
  "validateExtensions confExts = validateExtensions_loop confExts Map.empty []"

text \<open>
  \<^verbatim>\<open>var conf config; viper.Unmarshal(&conf)\<close>: the exported fields as viper resolved them
  (the file's value, or the default), the others at their zero value. (\<open>NoMatch\<close> stands
  for the \<^verbatim>\<open>nil\<close> regexp, which \<^verbatim>\<open>getConf\<close> replaces before it returns.)
\<close>

definition config_of :: "options \<Rightarrow> config" where
  "config_of opt =
     options.extend opt
       (config.fields [] [] [] 0 Map.empty 0 None 0 None None NoMatch)"

text \<open>
  \<^verbatim>\<open>main\<close>, lines 61 to 76: the conversion of the validity and lifespan options to
  durations.
\<close>

definition main_durations :: "config \<Rightarrow> config" where
  "main_durations conf =
     (let conf = conf\<lparr>dur := Duration conf * Second\<rparr>;
          conf = (if sint (MaxKeyAge conf) < 0
                  then conf\<lparr>keyLifeSpan := 100 * 365 * 24 * Hour\<rparr>
                  else conf\<lparr>keyLifeSpan := MaxKeyAge conf * 24 * Hour\<rparr>);
          conf = (if sint (SSLDuration conf) < 0
                  then conf\<lparr>tlsDur := 100 * 365 * 24 * Hour\<rparr>
                  else conf\<lparr>tlsDur := SSLDuration conf * Second\<rparr>)
      in conf)"

subsection \<open>The key-tracking store, the log and the world around a request\<close>

text \<open>
  The bolt database behind \<^verbatim>\<open>conf.db\<close>, with its two buckets (named in \<^verbatim>\<open>getConf\<close>):
  the serial counter and the first-seen records.
\<close>

record kts =
  certserial :: "int option"
  pubkeybirthdays :: "string \<rightharpoonup> string"

text \<open>
  What a run does to the outside world, in order: a \<^verbatim>\<open>log.Printf\<close> call (its format and
  its arguments, which are strings, byte slices and errors throughout, each as the string
  it prints as), a call of one of the store's operations, a call of the certificate
  factory, a key generation, a file written with \<^verbatim>\<open>ioutil.WriteFile\<close> (name, data,
  permission argument).
\<close>

datatype event =
    Printf string "string list"
  | DbIncTLSSerial
  | DbSetTLSSerial int
  | TlsSignCert certOpts
  | TlsGenKey string
  | WriteFile string string nat

record state =
  db :: kts
  files :: "string \<rightharpoonup> string"
  trace :: "event list"

definition emit :: "event \<Rightarrow> state \<Rightarrow> state" where
  "emit e st = st\<lparr>trace := trace st @ [e]\<rparr>"

text \<open>
  The functions the code calls and \<^verbatim>\<open>src/\<close> does not hold: Go's standard library
  (clock, PEM, X.509, file system faults) and the helpers of this repository that live in
  other files (\<^verbatim>\<open>tlsCertFP\<close>, \<^verbatim>\<open>validIP\<close>, \<^verbatim>\<open>dbIncTLSSerial\<close>, \<^verbatim>\<open>dbSetTLSSerial\<close>,
  \<^verbatim>\<open>tlsSignCert\<close>, \<^verbatim>\<open>tlsGenKey\<close>, \<^verbatim>\<open>expandHome\<close>). They are parameters: every theorem
  on the handler and on the bootstrap holds for each choice of them, unless it says
  otherwise.
\<close>

record env =
  time_Now :: time
  pem_Decode :: "string \<Rightarrow> string option"
  ParseCertificateRequest :: "string \<Rightarrow> string + CertificateRequest"
  CheckSignature :: "CertificateRequest \<Rightarrow> string option"
  ParseCertificate :: "string \<Rightarrow> string + Certificate"
  ParseECPrivateKey :: "string \<Rightarrow> string + PrivateKey"
  stat_fault :: "string \<rightharpoonup> string"
  read_fault :: "string \<rightharpoonup> string"
  write_fault :: "string \<rightharpoonup> string"
  tlsCertFP :: "Certificate \<Rightarrow> string"
  validIP :: "string \<Rightarrow> bool"
  dbIncTLSSerial :: "kts \<Rightarrow> (string + int) \<times> kts"
  dbSetTLSSerial :: "kts \<Rightarrow> int \<Rightarrow> string option \<times> kts"
  tlsSignCert :: "certOpts \<Rightarrow> string + (string \<times> string)"
  tlsGenKey :: "string \<Rightarrow> string + (string \<times> PrivateKey)"
  expandHome :: "string \<Rightarrow> string"

subsection \<open>Requests and responses\<close>

text \<open>
  The part of \<^verbatim>\<open>*http.Request\<close> the handler reads. The listener serves TLS only, so
  \<^verbatim>\<open>r.TLS\<close> is never \<^verbatim>\<open>nil\<close>; \<open>PeerCertificates\<close> is the chain the peer sent, leaf first.
\<close>

record request =
  PeerCertificates :: "Certificate list"
  RemoteAddr :: string
  Header_Get :: "string \<Rightarrow> string"
  PostFormValue :: "string \<Rightarrow> string"

record response =
  status :: nat
  body :: string

definition StatusOK :: nat where "StatusOK = 200"

definition StatusBadRequest :: nat where "StatusBadRequest = 400"

definition StatusUnauthorized :: nat where "StatusUnauthorized = 401"

definition StatusInternalServerError :: nat where "StatusInternalServerError = 500"

text \<open>\<^verbatim>\<open>http.Error\<close> sets the status and writes the message and a newline.\<close>

definition http_Error :: "string \<Rightarrow> nat \<Rightarrow> response" where
  "http_Error msg code = \<lparr>status = code, body = msg @ [CHR 0x0A]\<rparr>"

text \<open>\<^verbatim>\<open>w.Write\<close> on a fresh response writer: status 200 and the bytes.\<close>

definition w_Write :: "string \<Rightarrow> response" where
  "w_Write bytes = \<lparr>status = StatusOK, body = bytes\<rparr>"

record tlsParams =
  bastionUser :: string
  csr :: string
  userIP :: string

subsection \<open>Formatting\<close>

text \<open>
  \<^verbatim>\<open>fmt.Sprintf\<close> and \<^verbatim>\<open>fmt.Errorf\<close> with \<^verbatim>\<open>%s\<close> or \<^verbatim>\<open>%v\<close> of a string or an error are
  written as concatenation (\<^verbatim>\<open>%v\<close> of a \<^verbatim>\<open>nil\<close> error prints \<^verbatim>\<open><nil>\<close>). \<^verbatim>\<open>%d\<close> of an
  integer gives its decimal digits, with a minus sign when negative. Where the code
  passes a computed message as the format of \<^verbatim>\<open>log.Printf\<close>, the event holds that message
  as the format, with no arguments.
\<close>

fun nat_decimal :: "nat \<Rightarrow> string" where
  "nat_decimal n =
     (if n < 10 then [''0123456789'' ! n]
      else nat_decimal (n div 10) @ [''0123456789'' ! (n mod 10)])"

declare nat_decimal.simps [simp del]

definition int_decimal :: "int \<Rightarrow> string" where
  "int_decimal i = (if i < 0 then CHR ''-'' # nat_decimal (nat (- i)) else nat_decimal (nat i))"

subsection \<open>validateTLSParams\<close>

text \<open>
  Returns the error (\<open>None\<close> for \<^verbatim>\<open>nil\<close>) and the log calls it made on the way.
\<close>

definition validateTLSParams :: "env \<Rightarrow> config \<Rightarrow> tlsParams \<Rightarrow> string option \<times> event list" where
  "validateTLSParams env conf p =
     (if bastionUser p = [] then (Some (UserHeader conf @ '' missing from request''), [])
      else if \<not> MatchString (userRegex conf) (bastionUser p)
        then (Some ''username is invalid'', [])
      else if csr p = [] then (Some ''csr missing from request'', [])
      else if RequireClientIP conf \<and> \<not> validIP env (userIP p)
        then (Some ''invalid userIP'', [Printf ''invalid userIP: |%s|'' [userIP p]])
      else (None, []))"

subsection \<open>signTLSClientCert\<close>

text \<open>The options of lines 339 to 347, for the serial number just allocated.\<close>

definition signTLSClientCert_opts ::
  "env \<Rightarrow> config \<Rightarrow> CertificateRequest \<Rightarrow> int \<Rightarrow> certOpts" where
  "signTLSClientCert_opts env conf req serial =
     (let notBefore = time_Now env;
          notAfter = time_Add notBefore (tlsDur conf)
      in \<lparr> CA = tlsCACert conf, CAKey = tlsCAKey conf, CSR = Some req,
           CN = [], IsCA = False, NotBefore = notBefore,
           NotAfter = notAfter, SAN = [], Serial = serial \<rparr>)"

definition signTLSClientCert ::
  "env \<Rightarrow> config \<Rightarrow> CertificateRequest \<Rightarrow> state \<Rightarrow> (string + string \<times> string) \<times> state" where
  "signTLSClientCert env conf req st =
     (let (res, db') = dbIncTLSSerial env (db st);
          st = emit DbIncTLSSerial (st\<lparr>db := db'\<rparr>)
      in case res of
           Inl err \<Rightarrow> (Inl (''failed to generate client certficate: '' @ err), st)
         | Inr serial \<Rightarrow>
             (let opts = signTLSClientCert_opts env conf req serial;
                  st = emit (TlsSignCert opts) st
              in case tlsSignCert env opts of
                   Inl err \<Rightarrow> (Inl (''failed to generate client cert: '' @ err), st)
                 | Inr (pemCert, rawCert) \<Rightarrow> (Inr (pemCert, rawCert), st)))"

subsection \<open>tlsCertHandler\<close>

text \<open>
  Lines 19 to 31: the check that the request comes from the broker. \<open>None\<close> means the
  handler goes on; otherwise the response it returns with, and the line it logs.
\<close>

definition tlsCertHandler_auth :: "env \<Rightarrow> config \<Rightarrow> request \<Rightarrow> (response \<times> event) option" where
  "tlsCertHandler_auth env conf r =
     (case PeerCertificates r of
        c # _ \<Rightarrow>
          (let fp = tlsCertFP env c in
           if brokerFP conf \<noteq> fp
           then Some (http_Error ''Not authorized'' StatusUnauthorized,
                      Printf ''Not authorized to generate certificates: ip[%s] user[%s] cert[%s]''
                        [RemoteAddr r, Subject_CommonName c, fp])
           else None)
      | [] \<Rightarrow> Some (http_Error ''Invalid connection'' StatusBadRequest,
                    Printf ''Invalid connection'' []))"

text \<open>
  Lines 33 to 110: the parameters (lines 34 to 38), their validation, CSR decoding and
  checks, signing, audit line.
\<close>

definition tlsCertHandler_params :: "config \<Rightarrow> request \<Rightarrow> tlsParams" where
  "tlsCertHandler_params conf r =
     \<lparr> bastionUser = Header_Get r (UserHeader conf),
       csr = PostFormValue r ''csr'',
       userIP = PostFormValue r ''userIP'' \<rparr>"

definition tlsCertHandler_issue :: "env \<Rightarrow> config \<Rightarrow> request \<Rightarrow> state \<Rightarrow> response \<times> state" where
  "tlsCertHandler_issue env conf r st =
     (let p = tlsCertHandler_params conf r;
          (err, logged) = validateTLSParams env conf p;
          st = st\<lparr>trace := trace st @ logged\<rparr>
      in case err of
           Some e \<Rightarrow>
             (let errMsg = ''Param validation failure: '' @ e
              in (http_Error errMsg StatusBadRequest, emit (Printf errMsg []) st))
         | None \<Rightarrow>
        (case pem_Decode env (csr p) of
           None \<Rightarrow>
             (let errMsg = ''Failed to decode CSR: '' @ [CHR 0x27] @ ''<nil>'' @ [CHR 0x27]
              in (http_Error errMsg StatusBadRequest, emit (Printf errMsg []) st))
         | Some csrBlock \<Rightarrow>
        (case ParseCertificateRequest env csrBlock of
           Inl e \<Rightarrow>
             (let errMsg = ''Failed to parse CSR: '' @ e
              in (http_Error errMsg StatusBadRequest, emit (Printf errMsg []) st))
         | Inr req \<Rightarrow>
        (case CheckSignature env req of
           Some e \<Rightarrow>
             (let errMsg = ''Failed to check CSR signature: '' @ e
              in (http_Error errMsg StatusBadRequest, emit (Printf errMsg []) st))
         | None \<Rightarrow>
        (if req_Subject_CommonName req \<noteq> bastionUser p then
             (let errMsg = ''CSR CommonName field does not match logged-in user, denying request''
              in (http_Error errMsg StatusBadRequest, emit (Printf errMsg []) st))
         else
        (case signTLSClientCert env conf req st of
           (Inl e, st) \<Rightarrow>
             (http_Error ''Server error'' StatusInternalServerError,
              emit (Printf ''%v'' [e]) st)
         | (Inr (cert, rawCert), st) \<Rightarrow>
        (case ParseCertificate env rawCert of
           Inl e \<Rightarrow>
             (http_Error ''Error generating certificate'' StatusInternalServerError,
              emit (Printf ''Error parsing raw certificate: %v'' [e]) st)
         | Inr c \<Rightarrow>
             (let fp = tlsCertFP env c;
                  keyID = ''user['' @ bastionUser p @ ''] from['' @ userIP p
                          @ ''] serial['' @ int_decimal (SerialNumber c)
                          @ ''] fingerprint['' @ fp @ '']''
              in (w_Write cert, emit (Printf ''TLS request: %s'' [keyID]) st)))))))))"

definition tlsCertHandler :: "env \<Rightarrow> config \<Rightarrow> request \<Rightarrow> state \<Rightarrow> response \<times> state" where
  "tlsCertHandler env conf r st =
     (case tlsCertHandler_auth env conf r of
        Some (resp, line) \<Rightarrow> (resp, emit line st)
      | None \<Rightarrow> tlsCertHandler_issue env conf r st)"

subsection \<open>getConf\<close>

text \<open>
  \<^verbatim>\<open>getConf\<close>, given the outcome of \<^verbatim>\<open>viper.Unmarshal\<close>; it returns its result and the lines
  it logs for the extensions it drops.
\<close>

definition getConf :: "env \<Rightarrow> string + options \<Rightarrow> (string + config) \<times> event list" where
  "getConf env unmarshalled =
     (case unmarshalled of
        Inl err \<Rightarrow> (Inl (''Unable to read config into struct: '' @ err), [])
      | Inr opt \<Rightarrow>
          (let conf = config_of opt;
               conf = conf\<lparr>bucketNameFP := ''pubkeybirthdays''\<rparr>;
               conf = conf\<lparr>bucketNameSerial := ''certserial''\<rparr>
           in if SSLCA conf = [] \<or> SSLKey conf = [] \<or> SSLCert conf = []
              then (Inl ''sslca, sslkey, and sslcert are required fields'', [])
              else
                (let conf = conf\<lparr>DBFile := expandHome env (DBFile conf)\<rparr>;
                     (m, errSlice) = validateExtensions (Extensions conf);
                     conf = conf\<lparr>exts := m\<rparr>;
                     logged = map (\<lambda>err. Printf ''%v'' [err]) errSlice;
                     conf = conf\<lparr>userRegex := userRegex_re\<rparr>
                 in (Inr conf, logged))))"

subsection \<open>Files\<close>

text \<open>
  The file system as the bootstrap sees it: the files of the state, and for each of
  \<^verbatim>\<open>os.Stat\<close>, \<^verbatim>\<open>ioutil.ReadFile\<close> and \<^verbatim>\<open>ioutil.WriteFile\<close> the names on which the
  environment makes the call fail with an error of its own (permissions, I/O).
  \<^verbatim>\<open>os.IsNotExist\<close> holds of the error of a missing file only. A successful
  \<^verbatim>\<open>WriteFile\<close> stores the data and leaves its call, with the permission argument, in
  the trace; the mode the file ends up with (the process umask, a file that was there
  before) is not part of the model.
\<close>

datatype oserror = ErrNotExist | ErrOther string

definition os_Stat :: "env \<Rightarrow> state \<Rightarrow> string \<Rightarrow> oserror option" where
  "os_Stat env st name =
     (case stat_fault env name of
        Some e \<Rightarrow> Some (ErrOther e)
      | None \<Rightarrow> (if files st name = None then Some ErrNotExist else None))"

definition os_IsNotExist :: "oserror option \<Rightarrow> bool" where
  "os_IsNotExist err = (err = Some ErrNotExist)"

definition ioutil_ReadFile :: "env \<Rightarrow> state \<Rightarrow> string \<Rightarrow> string + string" where
  "ioutil_ReadFile env st name =
     (case read_fault env name of
        Some e \<Rightarrow> Inl e
      | None \<Rightarrow>
          (case files st name of
             None \<Rightarrow> Inl (''open '' @ name @ '': no such file or directory'')
           | Some data \<Rightarrow> Inr data))"

definition ioutil_WriteFile :: "env \<Rightarrow> string \<Rightarrow> string \<Rightarrow> nat \<Rightarrow> state \<Rightarrow> string option \<times> state" where
  "ioutil_WriteFile env name data perm st =
     (case write_fault env name of
        Some e \<Rightarrow> (Some e, st)
      | None \<Rightarrow> (None, emit (WriteFile name data perm) (st\<lparr>files := (files st)(name \<mapsto> data)\<rparr>)))"

text \<open>The permission arguments \<^verbatim>\<open>0600\<close> and \<^verbatim>\<open>0644\<close> (octal).\<close>

definition mode_0600 :: nat where
  "mode_0600 = 6 * 8 ^ 2"

definition mode_0644 :: nat where
  "mode_0644 = 6 * 8 ^ 2 + 4 * 8 + 4"

subsection \<open>genTLSCACert\<close>

text \<open>The validity, the serial and the options of lines 285 to 301, for the key just generated.\<close>

definition genTLSCACert_opts :: "env \<Rightarrow> config \<Rightarrow> PrivateKey \<Rightarrow> certOpts" where
  "genTLSCACert_opts env conf caKey =
     (let notBefore = time_Now env;
          notAfter = time_Add notBefore (SSLCADuration conf * 24 * Hour);
          serial = 1
      in \<lparr> CA = None, CAKey = Some caKey, CSR = None, CN = ''curse'', IsCA = True,
           NotBefore = notBefore, NotAfter = notAfter, SAN = SSLCertHostname conf,
           Serial = serial \<rparr>)"

definition genTLSCACert :: "env \<Rightarrow> config \<Rightarrow> state \<Rightarrow> string option \<times> state" where
  "genTLSCACert env conf st =
     (let st = emit (TlsGenKey (SSLKeyCurve conf)) st
      in case tlsGenKey env (SSLKeyCurve conf) of
           Inl err \<Rightarrow> (Some (''failed to generate ca private key: '' @ err), st)
         | Inr (caKeyBytes, caKey) \<Rightarrow>
        (let opts = genTLSCACert_opts env conf caKey;
             st = emit (TlsSignCert opts) st
         in case tlsSignCert env opts of
              Inl err \<Rightarrow> (Some (''failed to generate ca cert: '' @ err), st)
            | Inr (caCert, _) \<Rightarrow>
        (case ioutil_WriteFile env (SSLKey conf) caKeyBytes mode_0600 st of
           (Some err, st) \<Rightarrow> (Some (''failed to write ca private key file: '' @ err), st)
         | (None, st) \<Rightarrow>
        (case ioutil_WriteFile env (SSLCert conf) caCert mode_0644 st of
           (Some err, st) \<Rightarrow> (Some (''failed to write cert file: '' @ err), st)
         | (None, st) \<Rightarrow>
        (case ioutil_WriteFile env (SSLCA conf) caCert mode_0644 st of
           (Some err, st) \<Rightarrow> (Some (''failed to write ca cert file: '' @ err), st)
         | (None, st) \<Rightarrow>
             (let (err, db') = dbSetTLSSerial env (db st) (Serial opts)
              in (err, emit (DbSetTLSSerial (Serial opts)) (st\<lparr>db := db'\<rparr>))))))))"

subsection \<open>loadTLSCA\<close>

text \<open>
  Returns the error and the configuration as it leaves it (an assignment from a failed
  parse stores \<^verbatim>\<open>nil\<close>).
\<close>

definition loadTLSCA :: "env \<Rightarrow> config \<Rightarrow> state \<Rightarrow> string option \<times> config" where
  "loadTLSCA env conf st =
     (case ioutil_ReadFile env st (SSLKey conf) of
        Inl err \<Rightarrow> (Some (''failed to read tls key file: '' @ [CHR 0x27] @ err @ [CHR 0x27]), conf)
      | Inr caKeyPem \<Rightarrow>
     (case pem_Decode env caKeyPem of
        None \<Rightarrow> (Some (''failed to parse tls key file: '' @ [CHR 0x27] @ ''<nil>'' @ [CHR 0x27]), conf)
      | Some caKey \<Rightarrow>
     (case ParseECPrivateKey env caKey of
        Inl err \<Rightarrow> (Some (''failed to parse tls cert file: '' @ [CHR 0x27] @ err @ [CHR 0x27]),
                    conf\<lparr>tlsCAKey := None\<rparr>)
      | Inr key \<Rightarrow>
     (let conf = conf\<lparr>tlsCAKey := Some key\<rparr>
      in case ioutil_ReadFile env st (SSLCert conf) of
        Inl err \<Rightarrow> (Some (''failed to read tls cert file: '' @ [CHR 0x27] @ err @ [CHR 0x27]), conf)
      | Inr caCertPem \<Rightarrow>
     (case pem_Decode env caCertPem of
        None \<Rightarrow> (Some (''failed to decode tls cert file: '' @ [CHR 0x27] @ ''<nil>'' @ [CHR 0x27]), conf)
      | Some caCert \<Rightarrow>
     (case ParseCertificate env caCert of
        Inl err \<Rightarrow> (Some (''failed to parse tls cert file: '' @ [CHR 0x27] @ err @ [CHR 0x27]),
                    conf\<lparr>tlsCACert := None\<rparr>)
      | Inr cert \<Rightarrow> (None, conf\<lparr>tlsCACert := Some cert\<rparr>)))))))"

subsection \<open>initTLSCerts\<close>

text \<open>Lines 370 to 385: what follows the generation step.\<close>

definition initTLSCerts_load ::
  "env \<Rightarrow> config \<Rightarrow> oserror option \<Rightarrow> oserror option \<Rightarrow> state
     \<Rightarrow> (bool \<times> string option) \<times> config \<times> state" where
  "initTLSCerts_load env conf errK errC st =
     (if os_IsNotExist errK \<and> \<not> os_IsNotExist errC then
        ((False, Some ''error initializing ca certificate: sslcert exists, but sslkey does not''),
         conf, st)
      else if os_IsNotExist (os_Stat env st (SSLCA conf)) then
        ((True,
          Some (''discrete ca cert not supported with automatic cert generation. Using sslcert file as ca cert: ''
                @ SSLCert conf)),
         conf\<lparr>SSLCA := SSLCert conf\<rparr>, st)
      else
        (case loadTLSCA env conf st of
           (Some err, conf) \<Rightarrow> ((False, Some err), conf, st)
         | (None, conf) \<Rightarrow> ((True, None), conf, st)))"

text \<open>
  The result is the pair the function returns, the configuration as it leaves it and
  the state.
\<close>

definition initTLSCerts ::
  "env \<Rightarrow> config \<Rightarrow> state \<Rightarrow> (bool \<times> string option) \<times> config \<times> state" where
  "initTLSCerts env conf st =
     (let errK = os_Stat env st (SSLKey conf);
          errC = os_Stat env st (SSLCert conf)
      in if os_IsNotExist errK \<and> os_IsNotExist errC then
           (case genTLSCACert env conf st of
              (Some err, st) \<Rightarrow> ((False, Some err), conf, st)
            | (None, st) \<Rightarrow> initTLSCerts_load env conf errK errC st)
         else initTLSCerts_load env conf errK errC st)"

subsection \<open>The certificate factory and the store, from the specification\<close>

text \<open>
  Modelled from the spec: \<^verbatim>\<open>tlsSignCert\<close> is not in \<^verbatim>\<open>src/\<close>. Section 4.3: "When IsCA is
  true: construct a self-signed certificate with CommonName=CN, SubjectAltName=SAN,
  BasicConstraints: CA=true, signed by the supplied CA key. When IsCA is false: copy the
  Subject (notably CommonName) and Subject Public Key from the CSR; set
  SerialNumber=Serial, NotBefore/NotAfter as given; extended key usage ClientAuth; sign
  with the CA key. Output is PEM-encoded for on-the-wire return and DER-encoded for
  internal fingerprinting." The bootstrap of section 4.2 gives the CA certificate its
  serial and validity from the options as well. The two encodings and the conditions
  under which signing fails are left open by the spec: they are the parameters \<open>pemOf\<close>,
  \<open>derOf\<close> and \<open>sign_fault\<close>.
\<close>

record factory =
  pemOf :: "Certificate \<Rightarrow> string"
  derOf :: "Certificate \<Rightarrow> string"
  sign_fault :: "certOpts \<Rightarrow> string option"

definition factory_certificate :: "certOpts \<Rightarrow> Certificate option" where
  "factory_certificate opts =
     (case CAKey opts of
        None \<Rightarrow> None
      | Some k \<Rightarrow>
          if IsCA opts then
            Some \<lparr> Subject_CommonName = CN opts, DNSNames = [SAN opts],
                   SerialNumber = Serial opts, cert_NotBefore = NotBefore opts,
                   cert_NotAfter = NotAfter opts, cert_IsCA = True,
                   cert_PublicKey = key_Public k, ExtKeyUsage = [],
                   AuthorityKey = key_Public k \<rparr>
          else
            (case CSR opts of
               None \<Rightarrow> None
             | Some req \<Rightarrow>
                 Some \<lparr> Subject_CommonName = req_Subject_CommonName req, DNSNames = [],
                        SerialNumber = Serial opts, cert_NotBefore = NotBefore opts,
                        cert_NotAfter = NotAfter opts, cert_IsCA = False,
                        cert_PublicKey = req_PublicKey req, ExtKeyUsage = [''ClientAuth''],
                        AuthorityKey = key_Public k \<rparr>))"

definition tlsSignCert_model :: "factory \<Rightarrow> certOpts \<Rightarrow> string + (string \<times> string)" where
  "tlsSignCert_model F opts =
     (case sign_fault F opts of
        Some e \<Rightarrow> Inl e
      | None \<Rightarrow>
          (case factory_certificate opts of
             None \<Rightarrow> Inl ''missing key or request''
           | Some c \<Rightarrow> Inr (pemOf F c, derOf F c)))"

text \<open>
  Modelled from the spec: \<^verbatim>\<open>dbIncTLSSerial\<close> and \<^verbatim>\<open>dbSetTLSSerial\<close> are not in \<^verbatim>\<open>src/\<close>.
  Section 4.1: "nextSerial() reads current value, increments, writes, returns the new
  value; initializes to 1 if absent"; section 4.2: "seed the KTS serial counter to 1".
  An I/O error (the flag) fails the call and leaves the store as it was.
\<close>

definition dbIncTLSSerial_model :: "bool \<Rightarrow> kts \<Rightarrow> (string + int) \<times> kts" where
  "dbIncTLSSerial_model io_error k =
     (if io_error then (Inl ''database error'', k)
      else (let n = (case certserial k of None \<Rightarrow> 1 | Some v \<Rightarrow> v + 1)
            in (Inr n, k\<lparr>certserial := Some n\<rparr>)))"

definition dbSetTLSSerial_model :: "bool \<Rightarrow> kts \<Rightarrow> int \<Rightarrow> string option \<times> kts" where
  "dbSetTLSSerial_model io_error k n =
     (if io_error then (Some ''database error'', k) else (None, k\<lparr>certserial := Some n\<rparr>))"

subsection \<open>A small concrete world\<close>

text \<open>
  One environment, configuration and a few requests on which the theorems below are
  exercised. PEM armour is the prefix \<open>PEM:\<close>, three request bodies parse as CSRs (one
  with a signature that does not verify), the broker is the certificate with public key
  \<open>pk-broker\<close>.
\<close>

definition sample_factory :: factory where
  "sample_factory =
     \<lparr> pemOf = (\<lambda>c. ''PEM:'' @ Subject_CommonName c),
       derOf = (\<lambda>c. Subject_CommonName c),
       sign_fault = (\<lambda>_. None) \<rparr>"

definition sample_key :: PrivateKey where
  "sample_key = \<lparr> key_Curve = ''p384'', key_D = 7, key_Public = ''pk-ca'' \<rparr>"

definition sample_cert :: "string \<Rightarrow> string \<Rightarrow> Certificate" where
  "sample_cert cn pk =
     \<lparr> Subject_CommonName = cn, DNSNames = [], SerialNumber = 5, cert_NotBefore = 0,
       cert_NotAfter = 1, cert_IsCA = False, cert_PublicKey = pk,
       ExtKeyUsage = [''ClientAuth''], AuthorityKey = ''pk-ca'' \<rparr>"

definition sample_env :: env where
  "sample_env =
     \<lparr> time_Now = 1700000000000000000,
       pem_Decode = (\<lambda>s. if take 4 s = ''PEM:'' then Some (drop 4 s) else None),
       ParseCertificateRequest = (\<lambda>b.
          if b = ''alice'' then
            Inr \<lparr> req_Subject_CommonName = ''alice'', req_PublicKey = ''pk-alice'',
                  req_Signature = ''good'' \<rparr>
          else if b = ''bob'' then
            Inr \<lparr> req_Subject_CommonName = ''bob'', req_PublicKey = ''pk-bob'',
                  req_Signature = ''good'' \<rparr>
          else if b = ''forged'' then
            Inr \<lparr> req_Subject_CommonName = ''alice'', req_PublicKey = ''pk-alice'',
                  req_Signature = ''bad'' \<rparr>
          else Inl ''asn1: syntax error''),
       CheckSignature = (\<lambda>q. if req_Signature q = ''good'' then None
                              else Some ''x509: ECDSA verification failure''),
       ParseCertificate = (\<lambda>b. if b = [] then Inl ''x509: malformed certificate''
                                else Inr (sample_cert b ''pk'')),
       ParseECPrivateKey = (\<lambda>b. if b = ''key'' then Inr sample_key
                                 else Inl ''x509: failed to parse EC private key''),
       stat_fault = Map.empty,
       read_fault = Map.empty,
       write_fault = Map.empty,
       tlsCertFP = (\<lambda>c. ''fp-'' @ cert_PublicKey c),
       validIP = (\<lambda>s. s = ''10.0.0.5''),
       dbIncTLSSerial = dbIncTLSSerial_model False,
       dbSetTLSSerial = dbSetTLSSerial_model False,
       tlsSignCert = tlsSignCert_model sample_factory,
       tlsGenKey = (\<lambda>curve. Inr (''PEM:key'', sample_key\<lparr>key_Curve := curve\<rparr>)),
       expandHome = (\<lambda>p. p) \<rparr>"

definition fresh_state :: state where
  "fresh_state =
     \<lparr> db = \<lparr> certserial = None, pubkeybirthdays = Map.empty \<rparr>,
       files = Map.empty, trace = [] \<rparr>"

text \<open>The state of a host on which the key and the certificate are installed.\<close>

definition installed_state :: state where
  "installed_state =
     \<lparr> db = \<lparr> certserial = Some 1, pubkeybirthdays = Map.empty \<rparr>,
       files = [''/opt/curse/etc/cursed.key'' \<mapsto> ''PEM:key'',
                ''/opt/curse/etc/cursed.crt'' \<mapsto> ''PEM:curse''],
       trace = [] \<rparr>"

text \<open>The same host after four certificates.\<close>

definition sample_state :: state where
  "sample_state = installed_state\<lparr>db := \<lparr> certserial = Some 4, pubkeybirthdays = Map.empty \<rparr>\<rparr>"

definition sample_request :: "Certificate list \<Rightarrow> string \<Rightarrow> string \<Rightarrow> string \<Rightarrow> request" where
  "sample_request chain user csrPEM ip =
     \<lparr> PeerCertificates = chain, RemoteAddr = ''127.0.0.1:40000'',
       Header_Get = (\<lambda>h. if h = ''REMOTE_USER'' then user else []),
       PostFormValue = (\<lambda>f. if f = ''csr'' then csrPEM else if f = ''userIP'' then ip else []) \<rparr>"

text \<open>
  The configuration \<^verbatim>\<open>main\<close> holds when it calls \<^verbatim>\<open>initTLSCerts\<close> with a config file
  that sets nothing: the defaults of \<^verbatim>\<open>init\<close>, through \<^verbatim>\<open>getConf\<close> and the duration
  conversion. \<open>sample_conf\<close> is the same once the CA is loaded and the broker's
  fingerprint is known.
\<close>

definition default_conf :: config where
  "default_conf =
     main_durations
       ((config_of viper_defaults)
          \<lparr> bucketNameFP := ''pubkeybirthdays'',
            bucketNameSerial := ''certserial'',
            exts := [''permit-pty'' \<mapsto> []],
            userRegex := userRegex_re \<rparr>)"

definition sample_conf :: config where
  "sample_conf =
     default_conf
       \<lparr> brokerFP := ''fp-pk-broker'',
         tlsCACert := Some ((sample_cert ''curse'' ''pk-ca'')\<lparr>cert_IsCA := True\<rparr>),
         tlsCAKey := Some sample_key \<rparr>"

definition broker_cert :: Certificate where
  "broker_cert = sample_cert ''broker'' ''pk-broker''"

definition other_cert :: Certificate where
  "other_cert = sample_cert ''mallory'' ''pk-mallory''"

subsection \<open>Observations on a run\<close>

text \<open>
  The events of a trace other than log lines: the calls of the store, of the certificate
  factory and of the key generation, and the files written.
\<close>

definition is_Printf :: "event \<Rightarrow> bool" where
  "is_Printf e = (case e of Printf _ _ \<Rightarrow> True | _ \<Rightarrow> False)"

definition effects :: "event list \<Rightarrow> event list" where
  "effects tr = filter (\<lambda>e. \<not> is_Printf e) tr"

text \<open>100 x 365 x 24 hours, in nanoseconds.\<close>

definition hundred_years_ns :: int where
  "hundred_years_ns = 100 * 365 * 24 * (3600 * 1000000000)"

section \<open>Properties\<close>

subsection \<open>What the username pattern accepts\<close>

lemma runes_Nil: "runes [] = []"
  by (simp add: runes.simps)

lemma runes_ascii: "\<forall>c\<in>set s. rn c < 128 \<Longrightarrow> runes s = map rn s"
proof (induction s)
  case Nil
  then show ?case by (simp add: runes_Nil)
next
  case (Cons c s)
  have "DecodeRune (c # s) = (rn c, 1)"
    using Cons.prems by (simp add: DecodeRune_def)
  then show ?case
    using Cons by (subst runes.simps) simp
qed

lemma full_match_NoMatch: "full_match NoMatch w = False"
  by (induction w) simp_all

lemma full_match_EmptyMatch: "full_match EmptyMatch w = (w = [])"
  by (cases w) (simp_all add: full_match_NoMatch)

lemma full_match_Alternate:
  "full_match (Alternate a b) w = (full_match a w \<or> full_match b w)"
  by (induction w arbitrary: a b) simp_all

lemma full_match_Concat_NoMatch: "full_match (Concat NoMatch b) w = False"
  by (induction w) simp_all

lemma full_match_Concat_EmptyMatch: "full_match (Concat EmptyMatch b) w = full_match b w"
  by (cases w) (simp_all add: full_match_Alternate full_match_Concat_NoMatch)

lemma full_match_Concat_CharClass:
  "full_match (Concat (CharClass f cc) b) w =
     (case w of [] \<Rightarrow> False | x # xs \<Rightarrow> class_matches f cc x \<and> full_match b xs)"
  by (cases w) (simp_all add: full_match_Concat_NoMatch full_match_Concat_EmptyMatch)

lemma full_match_Upto_CharClass:
  "full_match (Upto (CharClass f cc) n) w =
     (length w \<le> n \<and> list_all (class_matches f cc) w)"
proof (induction n arbitrary: w)
  case 0
  then show ?case by (auto simp: full_match_EmptyMatch)
next
  case (Suc n)
  then show ?case
    by (auto simp: full_match_Alternate full_match_EmptyMatch full_match_Concat_CharClass
          split: list.split)
qed

lemma full_match_Star_CharClass:
  "full_match (Star (CharClass f cc)) w = list_all (class_matches f cc) w"
proof (induction w)
  case Nil
  then show ?case by simp
next
  case (Cons x w)
  then show ?case
    by (simp add: full_match_Concat_NoMatch full_match_Concat_EmptyMatch)
qed

lemma full_match_Plus_CharClass:
  "full_match (Plus (CharClass f cc)) w = (w \<noteq> [] \<and> list_all (class_matches f cc) w)"
  by (simp add: Plus_def full_match_Concat_CharClass full_match_Star_CharClass
        split: list.split)

lemma full_match_userRegex:
  "full_match userRegex_re w =
     ((\<exists>x xs. w = x # xs \<and> start_class x \<and> length xs \<le> 31 \<and> list_all rest_class xs)
      \<or> (w \<noteq> [] \<and> list_all hex_class w))"
  unfolding userRegex_re_def start_class_def rest_class_def hex_class_def
  by (simp add: full_match_Alternate full_match_Concat_CharClass
        full_match_Upto_CharClass full_match_Plus_CharClass split: list.split)

lemma hex_class_iff: "hex_class = is_hex_rune"
  by (rule ext) (auto simp: hex_class_def class_matches_def fold_orbit_def in_ranges_def
        rn_def is_hex_rune_def)

lemma start_class_char: "is_name_start c \<Longrightarrow> start_class (rn c)"
  by (auto simp: start_class_def class_matches_def fold_orbit_def in_ranges_def
        is_name_start_def is_letter_def rn_def)

lemma rest_class_char: "is_name_rest c \<Longrightarrow> rest_class (rn c)"
  by (auto simp: rest_class_def class_matches_def fold_orbit_def in_ranges_def
        is_name_rest_def is_letter_def is_digit_def rn_def)

lemma is_hex_char: "is_hex c \<Longrightarrow> is_hex_rune (rn c)"
  by (auto simp: is_hex_def is_digit_def is_hex_rune_def)

lemma name_rest_ascii: "is_name_rest c \<Longrightarrow> rn c < 128"
  by (auto simp: is_name_rest_def is_letter_def is_digit_def rn_def)

lemma name_start_ascii: "is_name_start c \<Longrightarrow> rn c < 128"
  by (auto simp: is_name_start_def is_letter_def rn_def)

lemma is_hex_ascii: "is_hex c \<Longrightarrow> rn c < 128"
  by (auto simp: is_hex_def is_digit_def)

lemma MatchString_name:
  assumes "s = c # cs" "is_name_start c" "list_all is_name_rest cs" "length cs \<le> 31"
  shows "MatchString userRegex_re s"
proof -
  have "\<forall>d\<in>set s. rn d < 128"
    using assms by (auto simp: list_all_iff name_rest_ascii name_start_ascii)
  then have "runes s = rn c # map rn cs"
    using assms(1) by (simp add: runes_ascii)
  moreover have "list_all rest_class (map rn cs)"
    using assms(3) by (auto simp: list_all_iff rest_class_char)
  ultimately show ?thesis
    unfolding MatchString_def full_match_userRegex
    using assms(2,4) by (simp add: start_class_char)
qed

lemma MatchString_hex:
  assumes "u \<noteq> []" "list_all is_hex u"
  shows "MatchString userRegex_re u"
proof -
  have "runes u = map rn u"
    using assms(2) by (auto simp: list_all_iff is_hex_ascii intro: runes_ascii)
  moreover have "list_all hex_class (map rn u)"
    using assms(2) by (auto simp: list_all_iff hex_class_iff is_hex_char)
  ultimately show ?thesis
    unfolding MatchString_def full_match_userRegex
    using assms(1) by simp
qed

lemma MatchString_long:
  assumes "32 < length (runes t)" "\<not> list_all is_hex_rune (runes t)"
  shows "\<not> MatchString userRegex_re t"
  unfolding MatchString_def full_match_userRegex hex_class_iff
  using assms by auto

text \<open>
  Claim C9, as amended. The compiled \<^verbatim>\<open>userRegex\<close> accepts every 32-character username
  that starts with a letter or an underscore and continues with letters, digits,
  underscores and hyphens; it rejects every username of 33 runes that is not made of
  hexadecimal digits only; and it accepts every non-empty username made of hexadecimal
  digits only, whatever its length.
\<close>

theorem userRegex_lengths_and_hex:
  "(length s = 32 \<and> is_name_start (hd s) \<and> list_all is_name_rest (tl s)
      \<longrightarrow> MatchString userRegex_re s)
   \<and> (length (runes t) = 33 \<and> \<not> list_all is_hex_rune (runes t)
      \<longrightarrow> \<not> MatchString userRegex_re t)
   \<and> (u \<noteq> [] \<and> list_all is_hex u \<longrightarrow> MatchString userRegex_re u)"
proof (intro conjI impI)
  assume a: "length s = 32 \<and> is_name_start (hd s) \<and> list_all is_name_rest (tl s)"
  then obtain c cs where s: "s = c # cs" by (cases s) auto
  with a show "MatchString userRegex_re s"
    by (intro MatchString_name [of s c cs]) auto
next
  assume "length (runes t) = 33 \<and> \<not> list_all is_hex_rune (runes t)"
  then show "\<not> MatchString userRegex_re t"
    by (intro MatchString_long) auto
next
  assume "u \<noteq> [] \<and> list_all is_hex u"
  then show "MatchString userRegex_re u"
    by (intro MatchString_hex) auto
qed

theorem userRegex_lengths_and_hex_witness:
  "MatchString userRegex_re ''_bcdefghijklmnopqrstuvwxyz-01234''
   \<and> length (runes ''abcdefghijklmnopqrstuvwxyz0123456'') = 33
   \<and> \<not> MatchString userRegex_re ''abcdefghijklmnopqrstuvwxyz0123456''
   \<and> MatchString userRegex_re ''0a1F''"
proof -
  have r: "runes ''abcdefghijklmnopqrstuvwxyz0123456'' = map rn ''abcdefghijklmnopqrstuvwxyz0123456''"
    by (rule runes_ascii) (simp add: rn_def)
  show ?thesis
    using userRegex_lengths_and_hex [of "''_bcdefghijklmnopqrstuvwxyz-01234''"
        "''abcdefghijklmnopqrstuvwxyz0123456''" "''0a1F''"]
    by (simp add: r is_name_start_def is_name_rest_def is_letter_def is_digit_def is_hex_def
          is_hex_rune_def rn_def)
qed

text \<open>
  The claim as first stated, "rejects every 33-character username", fails: 33 times the
  letter a is a hexadecimal username, which the second alternative accepts.
\<close>

theorem userRegex_accepts_33_hex:
  "length ''aaaaaaaaaaaaaaaaaaaaaaaaaaaaaaaaa'' = 33
   \<and> MatchString userRegex_re ''aaaaaaaaaaaaaaaaaaaaaaaaaaaaaaaaa''"
  by (simp add: MatchString_hex is_hex_def is_digit_def rn_def)

subsection \<open>The handler, step by step\<close>

lemma effects_append: "effects (xs @ ys) = effects xs @ effects ys"
  by (simp add: effects_def)

lemma effects_Printf: "effects [Printf f a] = []"
  by (simp add: effects_def is_Printf_def)

lemma validateTLSParams_logs: "effects (snd (validateTLSParams env conf p)) = []"
  by (simp add: validateTLSParams_def effects_def is_Printf_def)

lemma handler_auth_None:
  "tlsCertHandler_auth env conf r = None \<longleftrightarrow>
     (\<exists>c cs. PeerCertificates r = c # cs \<and> tlsCertFP env c = brokerFP conf)"
  by (auto simp: tlsCertHandler_auth_def Let_def split: list.splits)

lemma handler_wrong_fp:
  assumes "PeerCertificates r = c # cs" "tlsCertFP env c \<noteq> brokerFP conf"
  shows "tlsCertHandler env conf r st =
           (http_Error ''Not authorized'' StatusUnauthorized,
            emit (Printf ''Not authorized to generate certificates: ip[%s] user[%s] cert[%s]''
                    [RemoteAddr r, Subject_CommonName c, tlsCertFP env c]) st)"
  using assms by (auto simp: tlsCertHandler_def tlsCertHandler_auth_def Let_def)

lemma handler_no_cert:
  assumes "PeerCertificates r = []"
  shows "tlsCertHandler env conf r st =
           (http_Error ''Invalid connection'' StatusBadRequest,
            emit (Printf ''Invalid connection'' []) st)"
  using assms by (simp add: tlsCertHandler_def tlsCertHandler_auth_def)

lemma handler_authorized:
  assumes "PeerCertificates r = c # cs" "tlsCertFP env c = brokerFP conf"
  shows "tlsCertHandler env conf r st = tlsCertHandler_issue env conf r st"
  using assms by (simp add: tlsCertHandler_def tlsCertHandler_auth_def)

lemma issue_rejects_before_signing:
  assumes "pem_Decode env (PostFormValue r ''csr'') = Some b"
    and "ParseCertificateRequest env b = Inr req"
    and "CheckSignature env req \<noteq> None \<or> req_Subject_CommonName req \<noteq> Header_Get r (UserHeader conf)"
  shows "status (fst (tlsCertHandler_issue env conf r st)) = StatusBadRequest
         \<and> db (snd (tlsCertHandler_issue env conf r st)) = db st
         \<and> effects (trace (snd (tlsCertHandler_issue env conf r st))) = effects (trace st)"
  using assms validateTLSParams_logs [of env conf "tlsCertHandler_params conf r"]
  by (auto simp: tlsCertHandler_issue_def Let_def http_Error_def emit_def effects_append
        effects_Printf tlsCertHandler_params_def
        split: prod.splits option.splits)

lemma validateTLSParams_ok_logs:
  "validateTLSParams env conf p = (None, logged) \<Longrightarrow> logged = []"
  by (simp add: validateTLSParams_def split: if_splits)

lemma signTLSClientCert_Inr:
  assumes "signTLSClientCert env conf req st = (Inr (pem, der), st')"
  shows "\<exists>serial. fst (dbIncTLSSerial env (db st)) = Inr serial
           \<and> tlsSignCert env (signTLSClientCert_opts env conf req serial) = Inr (pem, der)
           \<and> st' = st\<lparr>db := snd (dbIncTLSSerial env (db st)),
                        trace := trace st @ [DbIncTLSSerial,
                                   TlsSignCert (signTLSClientCert_opts env conf req serial)]\<rparr>"
  using assms
  by (auto simp: signTLSClientCert_def Let_def emit_def split: prod.splits sum.splits)

lemma issue_success:
  assumes "status (fst (tlsCertHandler_issue env conf r st)) = StatusOK"
  shows "\<exists>b req serial pem der c.
           fst (validateTLSParams env conf (tlsCertHandler_params conf r)) = None
         \<and> pem_Decode env (PostFormValue r ''csr'') = Some b
         \<and> ParseCertificateRequest env b = Inr req
         \<and> CheckSignature env req = None
         \<and> req_Subject_CommonName req = Header_Get r (UserHeader conf)
         \<and> fst (dbIncTLSSerial env (db st)) = Inr serial
         \<and> tlsSignCert env (signTLSClientCert_opts env conf req serial) = Inr (pem, der)
         \<and> ParseCertificate env der = Inr c
         \<and> fst (tlsCertHandler_issue env conf r st) = w_Write pem
         \<and> db (snd (tlsCertHandler_issue env conf r st)) = snd (dbIncTLSSerial env (db st))
         \<and> trace (snd (tlsCertHandler_issue env conf r st)) =
               trace st @ [DbIncTLSSerial,
                           TlsSignCert (signTLSClientCert_opts env conf req serial),
                           Printf ''TLS request: %s''
                             [(''user['' @ Header_Get r (UserHeader conf)
                                    @ ''] from['' @ PostFormValue r ''userIP''
                                    @ ''] serial['' @ int_decimal (SerialNumber c)
                                    @ ''] fingerprint['' @ tlsCertFP env c @ '']'')]]"
proof -
  let ?p = "tlsCertHandler_params conf r"
  obtain err logged where v: "validateTLSParams env conf ?p = (err, logged)"
    by (cases "validateTLSParams env conf ?p")
  have bu: "bastionUser ?p = Header_Get r (UserHeader conf)"
    and cs: "csr ?p = PostFormValue r ''csr''"
    and ip: "userIP ?p = PostFormValue r ''userIP''"
    by (simp_all add: tlsCertHandler_params_def)
  note defs = tlsCertHandler_issue_def Let_def http_Error_def StatusOK_def
    StatusBadRequest_def StatusInternalServerError_def
  from assms v have e: "err = None"
    by (cases err) (simp_all add: defs)
  with v have l: "logged = []" by (simp add: validateTLSParams_ok_logs)
  from assms v e obtain b where b: "pem_Decode env (PostFormValue r ''csr'') = Some b"
    by (cases "pem_Decode env (PostFormValue r ''csr'')") (simp_all add: defs cs)
  from assms v e b obtain req where req: "ParseCertificateRequest env b = Inr req"
    by (cases "ParseCertificateRequest env b") (simp_all add: defs cs)
  from assms v e b req have sig: "CheckSignature env req = None"
    by (cases "CheckSignature env req") (simp_all add: defs cs)
  from assms v e b req sig have cn: "req_Subject_CommonName req = Header_Get r (UserHeader conf)"
    by (simp add: defs cs bu split: if_splits)
  let ?st = "st\<lparr>trace := trace st @ logged\<rparr>"
  obtain res st' where s: "signTLSClientCert env conf req ?st = (res, st')"
    by (cases "signTLSClientCert env conf req ?st")
  from assms v e b req sig cn s obtain pem der where res: "res = Inr (pem, der)"
    by (cases res) (auto simp: defs cs bu)
  from assms v e b req sig cn s res obtain c where c: "ParseCertificate env der = Inr c"
    by (cases "ParseCertificate env der") (simp_all add: defs cs bu)
  from signTLSClientCert_Inr [OF s [unfolded res]] l
  obtain serial where inc: "fst (dbIncTLSSerial env (db st)) = Inr serial"
    and sg: "tlsSignCert env (signTLSClientCert_opts env conf req serial) = Inr (pem, der)"
    and st': "st' = st\<lparr>db := snd (dbIncTLSSerial env (db st)),
                        trace := trace st @ [DbIncTLSSerial,
                                   TlsSignCert (signTLSClientCert_opts env conf req serial)]\<rparr>"
    by auto
  have out: "tlsCertHandler_issue env conf r st =
               (w_Write pem,
                emit (Printf ''TLS request: %s''
                        [(''user['' @ Header_Get r (UserHeader conf)
                               @ ''] from['' @ PostFormValue r ''userIP''
                               @ ''] serial['' @ int_decimal (SerialNumber c)
                               @ ''] fingerprint['' @ tlsCertFP env c @ '']'')]) st')"
    using v e b req sig cn s res c
    by (simp add: tlsCertHandler_issue_def Let_def cs bu ip)
  show ?thesis
    using v e b req sig cn inc sg c
    by (simp add: out st' emit_def)
qed

lemma tlsSignCert_model_client:
  assumes "tlsSignCert_model F (signTLSClientCert_opts env conf req serial) = Inr (pem, der)"
  shows "\<exists>cert. pem = pemOf F cert \<and> der = derOf F cert
           \<and> Subject_CommonName cert = req_Subject_CommonName req
           \<and> cert_PublicKey cert = req_PublicKey req
           \<and> SerialNumber cert = serial
           \<and> cert_NotAfter cert - cert_NotBefore cert = sint (tlsDur conf)"
  using assms
  by (auto simp: tlsSignCert_model_def factory_certificate_def signTLSClientCert_opts_def
        time_Add_def Let_def split: option.splits)

subsection \<open>The sample world, evaluated\<close>

lemma sample_conf_fields:
  "brokerFP sample_conf = ''fp-pk-broker''"
  "UserHeader sample_conf = ''REMOTE_USER''"
  "RequireClientIP sample_conf = True"
  "userRegex sample_conf = userRegex_re"
  "tlsDur sample_conf = 720 * Second"
  "tlsCAKey sample_conf = Some sample_key"
  "tlsCACert sample_conf = Some ((sample_cert ''curse'' ''pk-ca'')\<lparr>cert_IsCA := True\<rparr>)"
  by (simp_all add: sample_conf_def default_conf_def main_durations_def config_of_def
        viper_defaults_def options.defs config.defs Let_def)

lemma sample_conf_noip_fields:
  "brokerFP (sample_conf\<lparr>RequireClientIP := False\<rparr>) = ''fp-pk-broker''"
  "UserHeader (sample_conf\<lparr>RequireClientIP := False\<rparr>) = ''REMOTE_USER''"
  "RequireClientIP (sample_conf\<lparr>RequireClientIP := False\<rparr>) = False"
  "userRegex (sample_conf\<lparr>RequireClientIP := False\<rparr>) = userRegex_re"
  "tlsDur (sample_conf\<lparr>RequireClientIP := False\<rparr>) = 720 * Second"
  "tlsCAKey (sample_conf\<lparr>RequireClientIP := False\<rparr>) = Some sample_key"
  "tlsCACert (sample_conf\<lparr>RequireClientIP := False\<rparr>)
     = Some ((sample_cert ''curse'' ''pk-ca'')\<lparr>cert_IsCA := True\<rparr>)"
  by (simp_all add: sample_conf_fields)

lemma sample_env_fields:
  "time_Now sample_env = 1700000000000000000"
  "pem_Decode sample_env s = (if take 4 s = ''PEM:'' then Some (drop 4 s) else None)"
  "ParseCertificateRequest sample_env ''alice'' =
     Inr \<lparr> req_Subject_CommonName = ''alice'', req_PublicKey = ''pk-alice'',
           req_Signature = ''good'' \<rparr>"
  "ParseCertificateRequest sample_env ''bob'' =
     Inr \<lparr> req_Subject_CommonName = ''bob'', req_PublicKey = ''pk-bob'',
           req_Signature = ''good'' \<rparr>"
  "ParseCertificateRequest sample_env ''forged'' =
     Inr \<lparr> req_Subject_CommonName = ''alice'', req_PublicKey = ''pk-alice'',
           req_Signature = ''bad'' \<rparr>"
  "CheckSignature sample_env q =
     (if req_Signature q = ''good'' then None else Some ''x509: ECDSA verification failure'')"
  "ParseCertificate sample_env b =
     (if b = [] then Inl ''x509: malformed certificate'' else Inr (sample_cert b ''pk''))"
  "tlsCertFP sample_env c = ''fp-'' @ cert_PublicKey c"
  "validIP sample_env i = (i = ''10.0.0.5'')"
  "dbIncTLSSerial sample_env = dbIncTLSSerial_model False"
  "dbSetTLSSerial sample_env = dbSetTLSSerial_model False"
  "tlsSignCert sample_env = tlsSignCert_model sample_factory"
  "stat_fault sample_env = Map.empty"
  "read_fault sample_env = Map.empty"
  "write_fault sample_env = Map.empty"
  "tlsGenKey sample_env curve = Inr (''PEM:key'', sample_key\<lparr>key_Curve := curve\<rparr>)"
  "ParseECPrivateKey sample_env kb =
     (if kb = ''key'' then Inr sample_key else Inl ''x509: failed to parse EC private key'')"
  by (simp_all add: sample_env_def)

lemma MatchString_alice: "MatchString userRegex_re ''alice''"
  by (rule MatchString_name [of _ "CHR ''a''" "''lice''"])
     (simp_all add: is_name_start_def is_name_rest_def is_letter_def rn_def)

lemma sample_auth_broker:
  "tlsCertHandler_auth sample_env conf (sample_request (broker_cert # cs) u c i) = None
     \<longleftrightarrow> brokerFP conf = ''fp-pk-broker''"
  by (auto simp: tlsCertHandler_auth_def sample_env_fields sample_request_def broker_cert_def
        sample_cert_def Let_def)

lemma sample_happy:
  assumes "brokerFP conf = ''fp-pk-broker''" "UserHeader conf = ''REMOTE_USER''"
    "userRegex conf = userRegex_re" "RequireClientIP conf \<longrightarrow> ip = ''10.0.0.5''"
    "tlsCAKey conf = Some sample_key"
  shows "tlsCertHandler sample_env conf
           (sample_request [broker_cert] ''alice'' ''PEM:alice'' ip) sample_state
         = (w_Write ''PEM:alice'',
            \<lparr> db = \<lparr> certserial = Some 5, pubkeybirthdays = Map.empty \<rparr>,
              files = files installed_state,
              trace = [DbIncTLSSerial,
                       TlsSignCert (signTLSClientCert_opts sample_env conf
                          \<lparr> req_Subject_CommonName = ''alice'', req_PublicKey = ''pk-alice'',
                            req_Signature = ''good'' \<rparr> 5),
                       Printf ''TLS request: %s''
                         [(''user[alice] from['' @ ip @ ''] serial[5] fingerprint[fp-pk]'')]] \<rparr>)"
proof -
  have v: "validateTLSParams sample_env conf
             (tlsCertHandler_params conf (sample_request [broker_cert] ''alice'' ''PEM:alice'' ip))
           = (None, [])"
    using assms
    by (auto simp: validateTLSParams_def tlsCertHandler_params_def sample_request_def
          MatchString_alice sample_env_fields)
  have d: "int_decimal 5 = ''5''"
    by (simp add: int_decimal_def nat_decimal.simps)
  have s: "signTLSClientCert sample_env conf
             \<lparr> req_Subject_CommonName = ''alice'', req_PublicKey = ''pk-alice'',
               req_Signature = ''good'' \<rparr> sample_state
           = (Inr (''PEM:alice'', ''alice''),
              \<lparr> db = \<lparr> certserial = Some 5, pubkeybirthdays = Map.empty \<rparr>,
                files = files installed_state,
                trace = [DbIncTLSSerial,
                         TlsSignCert (signTLSClientCert_opts sample_env conf
                            \<lparr> req_Subject_CommonName = ''alice'', req_PublicKey = ''pk-alice'',
                              req_Signature = ''good'' \<rparr> 5)] \<rparr>)"
    using assms(5)
    by (simp add: signTLSClientCert_def sample_env_fields sample_state_def installed_state_def
          dbIncTLSSerial_model_def tlsSignCert_model_def factory_certificate_def
          signTLSClientCert_opts_def sample_factory_def emit_def Let_def)
  show ?thesis
  proof -
    have i: "tlsCertHandler_issue sample_env conf
               (sample_request [broker_cert] ''alice'' ''PEM:alice'' ip) sample_state
             = (w_Write ''PEM:alice'',
                emit (Printf ''TLS request: %s''
                        [(''user[alice] from['' @ ip @ ''] serial[5] fingerprint[fp-pk]'')])
                  (snd (signTLSClientCert sample_env conf
                     \<lparr> req_Subject_CommonName = ''alice'', req_PublicKey = ''pk-alice'',
                       req_Signature = ''good'' \<rparr> sample_state)))"
      unfolding tlsCertHandler_issue_def Let_def v
      using assms(2) s
      by (simp add: tlsCertHandler_params_def sample_request_def sample_env_fields d
            sample_cert_def)
    have a: "tlsCertHandler_auth sample_env conf
               (sample_request [broker_cert] ''alice'' ''PEM:alice'' ip) = None"
      using assms(1) by (simp add: sample_auth_broker)
    show ?thesis
      by (simp add: tlsCertHandler_def a i s emit_def)
  qed
qed

subsection \<open>The broker check, identity binding and what a rejected request leaves behind\<close>

lemma handler_success:
  assumes "status (fst (tlsCertHandler env conf r st)) = StatusOK"
  shows "tlsCertHandler env conf r st = tlsCertHandler_issue env conf r st"
  using assms
  by (auto simp: tlsCertHandler_def tlsCertHandler_auth_def http_Error_def Let_def
        StatusOK_def StatusBadRequest_def StatusUnauthorized_def
        split: list.splits if_splits)

lemma handler_auth_passed:
  assumes "tlsCertHandler_auth env conf r = None"
  shows "tlsCertHandler env conf r st = tlsCertHandler_issue env conf r st"
  using assms by (simp add: tlsCertHandler_def)

lemma sample_auth_other:
  "brokerFP conf = ''fp-pk-broker'' \<Longrightarrow>
   tlsCertFP sample_env other_cert \<noteq> brokerFP conf"
  by (simp add: sample_env_fields other_cert_def sample_cert_def)

lemma sample_fp:
  "tlsCertFP sample_env broker_cert = ''fp-pk-broker''"
  "tlsCertFP sample_env other_cert = ''fp-pk-mallory''"
  by (simp_all add: sample_env_fields broker_cert_def other_cert_def sample_cert_def)

lemma sample_request_fields:
  "PeerCertificates (sample_request chain u c i) = chain"
  "Header_Get (sample_request chain u c i) ''REMOTE_USER'' = u"
  "PostFormValue (sample_request chain u c i) ''csr'' = c"
  "PostFormValue (sample_request chain u c i) ''userIP'' = i"
  by (simp_all add: sample_request_def)

text \<open>
  Claim C1, as amended. \<^verbatim>\<open>tlsCertHandler\<close> goes on past the broker check if and only if the
  peer presented at least one certificate and the first of them (the leaf) has the
  fingerprint \<^verbatim>\<open>conf.brokerFP\<close>; when the first certificate's fingerprint differs it
  answers 401 with \<^verbatim>\<open>Not authorized\<close>; when the peer presented no certificate it answers
  400.
\<close>

theorem tlsCertHandler_broker_check:
  "(tlsCertHandler_auth env conf r = None
      \<longleftrightarrow> (\<exists>c cs. PeerCertificates r = c # cs \<and> tlsCertFP env c = brokerFP conf))
   \<and> (tlsCertHandler_auth env conf r = None
      \<longrightarrow> tlsCertHandler env conf r st = tlsCertHandler_issue env conf r st)
   \<and> (\<forall>c cs. PeerCertificates r = c # cs \<and> tlsCertFP env c \<noteq> brokerFP conf
      \<longrightarrow> fst (tlsCertHandler env conf r st) = http_Error ''Not authorized'' StatusUnauthorized)
   \<and> (PeerCertificates r = []
      \<longrightarrow> fst (tlsCertHandler env conf r st) = http_Error ''Invalid connection'' StatusBadRequest)"
  by (simp add: handler_auth_None handler_wrong_fp handler_no_cert handler_auth_passed
        del: ex_simps)

theorem tlsCertHandler_broker_check_witness:
  "tlsCertHandler_auth sample_env sample_conf
     (sample_request [broker_cert] ''alice'' ''PEM:alice'' ''10.0.0.5'') = None
   \<and> tlsCertHandler sample_env sample_conf
       (sample_request [broker_cert] ''alice'' ''PEM:alice'' ''10.0.0.5'') sample_state
     = tlsCertHandler_issue sample_env sample_conf
       (sample_request [broker_cert] ''alice'' ''PEM:alice'' ''10.0.0.5'') sample_state
   \<and> fst (tlsCertHandler sample_env sample_conf
       (sample_request [other_cert] ''alice'' ''PEM:alice'' ''10.0.0.5'') sample_state)
     = http_Error ''Not authorized'' StatusUnauthorized
   \<and> fst (tlsCertHandler sample_env sample_conf
       (sample_request [] ''alice'' ''PEM:alice'' ''10.0.0.5'') sample_state)
     = http_Error ''Invalid connection'' StatusBadRequest"
  using
    tlsCertHandler_broker_check [of sample_env sample_conf
      "sample_request [broker_cert] ''alice'' ''PEM:alice'' ''10.0.0.5''" sample_state]
    tlsCertHandler_broker_check [of sample_env sample_conf
      "sample_request [other_cert] ''alice'' ''PEM:alice'' ''10.0.0.5''" sample_state]
    tlsCertHandler_broker_check [of sample_env sample_conf
      "sample_request [] ''alice'' ''PEM:alice'' ''10.0.0.5''" sample_state]
  by (simp add: sample_request_fields sample_conf_fields sample_fp)

text \<open>
  The claim as first stated, "if and only if the peer presented exactly one client
  certificate", fails. A peer that presents a chain of two certificates with the broker's
  certificate first passes the check; and a peer that presents two certificates of which
  exactly one, the second, is the broker's is answered 401.
\<close>

theorem tlsCertHandler_checks_first_certificate_only:
  "tlsCertHandler_auth sample_env sample_conf
     (sample_request [broker_cert, other_cert] ''alice'' ''PEM:alice'' ''10.0.0.5'') = None
   \<and> length (PeerCertificates
       (sample_request [broker_cert, other_cert] ''alice'' ''PEM:alice'' ''10.0.0.5'')) = 2
   \<and> tlsCertFP sample_env broker_cert = brokerFP sample_conf
   \<and> tlsCertFP sample_env other_cert \<noteq> brokerFP sample_conf
   \<and> fst (tlsCertHandler sample_env sample_conf
       (sample_request [other_cert, broker_cert] ''alice'' ''PEM:alice'' ''10.0.0.5'')
       sample_state)
     = http_Error ''Not authorized'' StatusUnauthorized"
proof -
  have "fst (tlsCertHandler sample_env sample_conf
       (sample_request [other_cert, broker_cert] ''alice'' ''PEM:alice'' ''10.0.0.5'')
       sample_state)
     = http_Error ''Not authorized'' StatusUnauthorized"
    by (subst handler_wrong_fp [of _ other_cert "[broker_cert]"])
       (simp_all add: sample_request_fields sample_fp sample_conf_fields)
  then show ?thesis
    by (simp add: sample_auth_broker sample_conf_fields sample_request_fields sample_fp)
qed

text \<open>
  Claim C2. A request that is answered 200 carries in its body the PEM output of the
  certificate factory, called with the CSR whose \<^verbatim>\<open>Subject.CommonName\<close> is the request's
  \<^verbatim>\<open>bastionUser\<close> (the value of the configured user header); with the factory of the
  specification, which copies the subject from the CSR, the certificate's
  \<^verbatim>\<open>Subject.CommonName\<close> is \<^verbatim>\<open>bastionUser\<close>. And whenever the CSR the handler has parsed
  names another \<^verbatim>\<open>CommonName\<close>, the handler answers 400: the store is not touched and
  the factory is not called.
\<close>

theorem tlsCertHandler_identity_binding:
  "(status (fst (tlsCertHandler env conf r st)) = StatusOK
      \<longrightarrow> (\<exists>req serial der.
             req_Subject_CommonName req = Header_Get r (UserHeader conf)
           \<and> tlsSignCert env (signTLSClientCert_opts env conf req serial)
               = Inr (body (fst (tlsCertHandler env conf r st)), der)))
   \<and> (tlsSignCert env = tlsSignCert_model F
        \<and> status (fst (tlsCertHandler env conf r st)) = StatusOK
      \<longrightarrow> (\<exists>cert. body (fst (tlsCertHandler env conf r st)) = pemOf F cert
             \<and> Subject_CommonName cert = Header_Get r (UserHeader conf)))
   \<and> (tlsCertHandler_auth env conf r = None
        \<and> pem_Decode env (PostFormValue r ''csr'') = Some b
        \<and> ParseCertificateRequest env b = Inr req
        \<and> req_Subject_CommonName req \<noteq> Header_Get r (UserHeader conf)
      \<longrightarrow> status (fst (tlsCertHandler env conf r st)) = StatusBadRequest
        \<and> db (snd (tlsCertHandler env conf r st)) = db st
        \<and> effects (trace (snd (tlsCertHandler env conf r st))) = effects (trace st))"
proof (intro conjI impI)
  assume ok: "status (fst (tlsCertHandler env conf r st)) = StatusOK"
  from issue_success [of env conf r st] ok handler_success [OF ok]
  obtain req serial pem der where
      "req_Subject_CommonName req = Header_Get r (UserHeader conf)"
    and "tlsSignCert env (signTLSClientCert_opts env conf req serial) = Inr (pem, der)"
    and "body (fst (tlsCertHandler env conf r st)) = pem"
    by (auto simp: w_Write_def)
  then show "\<exists>req serial der.
          req_Subject_CommonName req = Header_Get r (UserHeader conf)
        \<and> tlsSignCert env (signTLSClientCert_opts env conf req serial)
            = Inr (body (fst (tlsCertHandler env conf r st)), der)"
    by blast
next
  assume a: "tlsSignCert env = tlsSignCert_model F
             \<and> status (fst (tlsCertHandler env conf r st)) = StatusOK"
  then have ok: "status (fst (tlsCertHandler env conf r st)) = StatusOK" by simp
  from issue_success [of env conf r st] ok handler_success [OF ok]
  obtain req serial pem der where
      cn: "req_Subject_CommonName req = Header_Get r (UserHeader conf)"
    and sg: "tlsSignCert env (signTLSClientCert_opts env conf req serial) = Inr (pem, der)"
    and bd: "body (fst (tlsCertHandler env conf r st)) = pem"
    by (auto simp: w_Write_def)
  from sg a have "tlsSignCert_model F (signTLSClientCert_opts env conf req serial) = Inr (pem, der)"
    by simp
  from tlsSignCert_model_client [OF this] cn bd
  show "\<exists>cert. body (fst (tlsCertHandler env conf r st)) = pemOf F cert
          \<and> Subject_CommonName cert = Header_Get r (UserHeader conf)"
    by auto
next
  assume a: "tlsCertHandler_auth env conf r = None
        \<and> pem_Decode env (PostFormValue r ''csr'') = Some b
        \<and> ParseCertificateRequest env b = Inr req
        \<and> req_Subject_CommonName req \<noteq> Header_Get r (UserHeader conf)"
  then have h: "tlsCertHandler env conf r st = tlsCertHandler_issue env conf r st"
    by (simp add: handler_auth_passed)
  from a issue_rejects_before_signing [of env r b req conf st]
  show "status (fst (tlsCertHandler env conf r st)) = StatusBadRequest"
    and "db (snd (tlsCertHandler env conf r st)) = db st"
    and "effects (trace (snd (tlsCertHandler env conf r st))) = effects (trace st)"
    by (simp_all add: h)
qed

lemma sample_pem_Decode:
  "pem_Decode sample_env ''PEM:alice'' = Some ''alice''"
  "pem_Decode sample_env ''PEM:bob'' = Some ''bob''"
  "pem_Decode sample_env ''PEM:forged'' = Some ''forged''"
  by (simp_all add: sample_env_fields)

theorem tlsCertHandler_identity_binding_witness:
  "status (fst (tlsCertHandler sample_env sample_conf
      (sample_request [broker_cert] ''alice'' ''PEM:alice'' ''10.0.0.5'') sample_state)) = StatusOK
   \<and> (\<exists>cert. body (fst (tlsCertHandler sample_env sample_conf
            (sample_request [broker_cert] ''alice'' ''PEM:alice'' ''10.0.0.5'') sample_state))
          = pemOf sample_factory cert
        \<and> Subject_CommonName cert = ''alice'')
   \<and> status (fst (tlsCertHandler sample_env sample_conf
      (sample_request [broker_cert] ''alice'' ''PEM:bob'' ''10.0.0.5'') sample_state))
     = StatusBadRequest
   \<and> db (snd (tlsCertHandler sample_env sample_conf
      (sample_request [broker_cert] ''alice'' ''PEM:bob'' ''10.0.0.5'') sample_state))
     = db sample_state"
proof -
  have ok: "status (fst (tlsCertHandler sample_env sample_conf
      (sample_request [broker_cert] ''alice'' ''PEM:alice'' ''10.0.0.5'') sample_state)) = StatusOK"
    by (simp add: sample_happy sample_conf_fields w_Write_def)
  have au: "tlsCertHandler_auth sample_env sample_conf
      (sample_request [broker_cert] ''alice'' ''PEM:bob'' ''10.0.0.5'') = None"
    by (simp add: sample_auth_broker sample_conf_fields)
  show ?thesis
    using ok au
      tlsCertHandler_identity_binding [where env = sample_env and conf = sample_conf
        and r = "sample_request [broker_cert] ''alice'' ''PEM:alice'' ''10.0.0.5''"
        and st = sample_state and F = sample_factory]
      tlsCertHandler_identity_binding [where env = sample_env and conf = sample_conf
        and r = "sample_request [broker_cert] ''alice'' ''PEM:bob'' ''10.0.0.5''"
        and st = sample_state and F = sample_factory and b = "''bob''"
        and req = "\<lparr> req_Subject_CommonName = ''bob'', req_PublicKey = ''pk-bob'',
           req_Signature = ''good'' \<rparr>"]
    by (simp add: sample_env_fields sample_request_fields sample_conf_fields)
qed

text \<open>
  Claim C3. When the fingerprint of the peer's certificate differs from
  \<^verbatim>\<open>conf.brokerFP\<close>, the handler answers 401 and returns having written one log line
  and nothing else: no operation of the key-tracking store has run, its serial counter
  and its first-seen records are what they were, and so are the files.
\<close>

theorem tlsCertHandler_wrong_broker_leaves_store:
  assumes "PeerCertificates r = c # cs" and "tlsCertFP env c \<noteq> brokerFP conf"
  shows "status (fst (tlsCertHandler env conf r st)) = StatusUnauthorized
       \<and> db (snd (tlsCertHandler env conf r st)) = db st
       \<and> certserial (db (snd (tlsCertHandler env conf r st))) = certserial (db st)
       \<and> pubkeybirthdays (db (snd (tlsCertHandler env conf r st))) = pubkeybirthdays (db st)
       \<and> files (snd (tlsCertHandler env conf r st)) = files st
       \<and> effects (trace (snd (tlsCertHandler env conf r st))) = effects (trace st)
       \<and> length (trace (snd (tlsCertHandler env conf r st))) = Suc (length (trace st))"
  using assms
  by (simp add: handler_wrong_fp http_Error_def emit_def effects_append effects_Printf)

theorem tlsCertHandler_wrong_broker_leaves_store_witness:
  "status (fst (tlsCertHandler sample_env sample_conf
      (sample_request [other_cert] ''alice'' ''PEM:alice'' ''10.0.0.5'') sample_state))
     = StatusUnauthorized
   \<and> db (snd (tlsCertHandler sample_env sample_conf
      (sample_request [other_cert] ''alice'' ''PEM:alice'' ''10.0.0.5'') sample_state))
     = db sample_state
   \<and> effects (trace (snd (tlsCertHandler sample_env sample_conf
      (sample_request [other_cert] ''alice'' ''PEM:alice'' ''10.0.0.5'') sample_state)))
     = effects (trace sample_state)"
  using tlsCertHandler_wrong_broker_leaves_store [where
      r = "sample_request [other_cert] ''alice'' ''PEM:alice'' ''10.0.0.5''"
      and c = other_cert and cs = "[]"
      and env = sample_env and conf = sample_conf and st = sample_state]
  by (simp add: sample_request_fields sample_fp sample_conf_fields)

text \<open>
  Claim C4. When the CSR the handler has parsed fails \<^verbatim>\<open>CheckSignature\<close>, the handler
  answers 400 and \<^verbatim>\<open>signTLSClientCert\<close> is not invoked: no serial is allocated, the
  store is what it was, and the certificate factory is not called.
\<close>

theorem tlsCertHandler_bad_signature_never_signed:
  assumes "tlsCertHandler_auth env conf r = None"
    and "pem_Decode env (PostFormValue r ''csr'') = Some b"
    and "ParseCertificateRequest env b = Inr req"
    and "CheckSignature env req = Some e"
  shows "status (fst (tlsCertHandler env conf r st)) = StatusBadRequest
       \<and> db (snd (tlsCertHandler env conf r st)) = db st
       \<and> effects (trace (snd (tlsCertHandler env conf r st))) = effects (trace st)"
  using assms issue_rejects_before_signing [of env r b req conf st]
  by (simp add: handler_auth_passed)

theorem tlsCertHandler_bad_signature_never_signed_witness:
  "status (fst (tlsCertHandler sample_env sample_conf
      (sample_request [broker_cert] ''alice'' ''PEM:forged'' ''10.0.0.5'') sample_state))
     = StatusBadRequest
   \<and> db (snd (tlsCertHandler sample_env sample_conf
      (sample_request [broker_cert] ''alice'' ''PEM:forged'' ''10.0.0.5'') sample_state))
     = db sample_state
   \<and> effects (trace (snd (tlsCertHandler sample_env sample_conf
      (sample_request [broker_cert] ''alice'' ''PEM:forged'' ''10.0.0.5'') sample_state)))
     = effects (trace sample_state)"
proof -
  have au: "tlsCertHandler_auth sample_env sample_conf
      (sample_request [broker_cert] ''alice'' ''PEM:forged'' ''10.0.0.5'') = None"
    by (simp add: sample_auth_broker sample_conf_fields)
  show ?thesis
    using tlsCertHandler_bad_signature_never_signed [OF au, where b = "''forged''"
        and req = "\<lparr> req_Subject_CommonName = ''alice'', req_PublicKey = ''pk-alice'',
           req_Signature = ''bad'' \<rparr>"
        and e = "''x509: ECDSA verification failure''" and st = sample_state]
    by (simp add: sample_env_fields sample_request_fields)
qed

text \<open>
  Claim C10. With \<^verbatim>\<open>RequireClientIP\<close> false, \<^verbatim>\<open>validateTLSParams\<close> does not look at the
  \<^verbatim>\<open>userIP\<close> field: its result is the same for every value of the field, and it accepts
  exactly when the user name is present and matches and the CSR is present. A request
  answered 200 ends with the audit line, which holds the \<^verbatim>\<open>userIP\<close> form value as it came.
\<close>

theorem validateTLSParams_ignores_userIP:
  "(\<not> RequireClientIP conf
      \<longrightarrow> validateTLSParams env conf (p\<lparr>userIP := ip\<rparr>) = validateTLSParams env conf p)
   \<and> (\<not> RequireClientIP conf
      \<longrightarrow> (fst (validateTLSParams env conf p) = None
           \<longleftrightarrow> bastionUser p \<noteq> [] \<and> MatchString (userRegex conf) (bastionUser p)
               \<and> csr p \<noteq> []))
   \<and> (status (fst (tlsCertHandler env conf r st)) = StatusOK
      \<longrightarrow> (\<exists>serial fp.
            last (trace (snd (tlsCertHandler env conf r st)))
              = Printf ''TLS request: %s''
                  [(''user['' @ Header_Get r (UserHeader conf)
                         @ ''] from['' @ PostFormValue r ''userIP''
                         @ ''] serial['' @ serial
                         @ ''] fingerprint['' @ fp @ '']'')]))"
proof (intro conjI impI)
  assume "\<not> RequireClientIP conf"
  then show "validateTLSParams env conf (p\<lparr>userIP := ip\<rparr>) = validateTLSParams env conf p"
    by (simp add: validateTLSParams_def)
next
  assume "\<not> RequireClientIP conf"
  then show "fst (validateTLSParams env conf p) = None
           \<longleftrightarrow> bastionUser p \<noteq> [] \<and> MatchString (userRegex conf) (bastionUser p)
               \<and> csr p \<noteq> []"
    by (simp add: validateTLSParams_def)
next
  assume ok: "status (fst (tlsCertHandler env conf r st)) = StatusOK"
  from issue_success [of env conf r st] ok handler_success [OF ok]
  obtain c req serial where
    "trace (snd (tlsCertHandler env conf r st)) =
               trace st @ [DbIncTLSSerial,
                           TlsSignCert (signTLSClientCert_opts env conf req serial),
                           Printf ''TLS request: %s''
                             [(''user['' @ Header_Get r (UserHeader conf)
                                    @ ''] from['' @ PostFormValue r ''userIP''
                                    @ ''] serial['' @ int_decimal (SerialNumber c)
                                    @ ''] fingerprint['' @ tlsCertFP env c @ '']'')]]"
    by auto
  then have "last (trace (snd (tlsCertHandler env conf r st)))
              = Printf ''TLS request: %s''
                  [(''user['' @ Header_Get r (UserHeader conf)
                         @ ''] from['' @ PostFormValue r ''userIP''
                         @ ''] serial['' @ int_decimal (SerialNumber c)
                         @ ''] fingerprint['' @ tlsCertFP env c @ '']'')]"
    by simp
  then show "\<exists>serial fp.
            last (trace (snd (tlsCertHandler env conf r st)))
              = Printf ''TLS request: %s''
                  [(''user['' @ Header_Get r (UserHeader conf)
                         @ ''] from['' @ PostFormValue r ''userIP''
                         @ ''] serial['' @ serial
                         @ ''] fingerprint['' @ fp @ '']'')]"
    by blast
qed

theorem validateTLSParams_ignores_userIP_witness:
  "validateTLSParams sample_env (sample_conf\<lparr>RequireClientIP := False\<rparr>)
      \<lparr>bastionUser = ''alice'', csr = ''PEM:alice'', userIP = ''not an address''\<rparr>
     = validateTLSParams sample_env (sample_conf\<lparr>RequireClientIP := False\<rparr>)
      \<lparr>bastionUser = ''alice'', csr = ''PEM:alice'', userIP = ''10.0.0.5''\<rparr>
   \<and> fst (validateTLSParams sample_env (sample_conf\<lparr>RequireClientIP := False\<rparr>)
      \<lparr>bastionUser = ''alice'', csr = ''PEM:alice'', userIP = []\<rparr>) = None
   \<and> status (fst (tlsCertHandler sample_env (sample_conf\<lparr>RequireClientIP := False\<rparr>)
      (sample_request [broker_cert] ''alice'' ''PEM:alice'' ''not an address'') sample_state))
     = StatusOK
   \<and> (\<exists>serial fp.
        last (trace (snd (tlsCertHandler sample_env (sample_conf\<lparr>RequireClientIP := False\<rparr>)
          (sample_request [broker_cert] ''alice'' ''PEM:alice'' ''not an address'') sample_state)))
        = Printf ''TLS request: %s''
            [(''user[alice] from[not an address] serial['' @ serial
                   @ ''] fingerprint['' @ fp @ '']'')])"
proof -
  have ok: "status (fst (tlsCertHandler sample_env (sample_conf\<lparr>RequireClientIP := False\<rparr>)
      (sample_request [broker_cert] ''alice'' ''PEM:alice'' ''not an address'') sample_state))
     = StatusOK"
    by (simp add: sample_happy sample_conf_noip_fields w_Write_def)
  show ?thesis
    using ok
      validateTLSParams_ignores_userIP [where conf = "sample_conf\<lparr>RequireClientIP := False\<rparr>"
        and env = sample_env
        and p = "\<lparr>bastionUser = ''alice'', csr = ''PEM:alice'', userIP = ''10.0.0.5''\<rparr>"
        and ip = "''not an address''"
        and r = "sample_request [broker_cert] ''alice'' ''PEM:alice'' ''not an address''"
        and st = sample_state]
      validateTLSParams_ignores_userIP [where conf = "sample_conf\<lparr>RequireClientIP := False\<rparr>"
        and env = sample_env
        and p = "\<lparr>bastionUser = ''alice'', csr = ''PEM:alice'', userIP = []\<rparr>"
        and ip = "[]"
        and r = "sample_request [broker_cert] ''alice'' ''PEM:alice'' ''not an address''"
        and st = sample_state]
    by (simp add: sample_conf_noip_fields sample_request_fields MatchString_alice)
qed

subsection \<open>Validity windows\<close>

lemma main_durations_negative_SSLDuration:
  "sint (SSLDuration conf) < 0 \<Longrightarrow> sint (tlsDur (main_durations conf)) = hundred_years_ns"
  by (simp add: main_durations_def Let_def Hour_def Second_def hundred_years_ns_def)

lemma main_durations_tlsDur:
  "tlsDur (main_durations conf) =
     (if sint (SSLDuration conf) < 0 then 100 * 365 * 24 * Hour else SSLDuration conf * Second)"
  by (simp add: main_durations_def Let_def)

lemma main_durations_dur: "dur (main_durations conf) = Duration conf * Second"
  by (simp add: main_durations_def Let_def)

lemma main_durations_keyLifeSpan:
  "keyLifeSpan (main_durations conf) =
     (if sint (MaxKeyAge conf) < 0 then 100 * 365 * 24 * Hour else MaxKeyAge conf * 24 * Hour)"
  by (simp add: main_durations_def Let_def)

lemma signTLSClientCert_opts_window:
  "NotAfter (signTLSClientCert_opts env conf req serial)
     - NotBefore (signTLSClientCert_opts env conf req serial) = sint (tlsDur conf)"
  by (simp add: signTLSClientCert_opts_def time_Add_def Let_def)

text \<open>
  Claim C7, as amended. For every negative configured value of the TLS certificate
  duration (option \<^verbatim>\<open>sslduration\<close>), the effective validity window used by the service
  equals 100 years (100 x 365 x 24 hours): \<^verbatim>\<open>conf.tlsDur\<close> after the conversion in
  \<^verbatim>\<open>main\<close>, and with it the distance from \<^verbatim>\<open>NotBefore\<close> to \<^verbatim>\<open>NotAfter\<close> that
  \<^verbatim>\<open>signTLSClientCert\<close> asks the factory for.
\<close>

theorem negative_sslduration_is_100_years:
  "sint (SSLDuration conf) < 0
     \<longrightarrow> sint (tlsDur (main_durations conf)) = hundred_years_ns
       \<and> NotAfter (signTLSClientCert_opts env (main_durations conf) req serial)
           - NotBefore (signTLSClientCert_opts env (main_durations conf) req serial)
         = hundred_years_ns"
  by (simp add: main_durations_negative_SSLDuration signTLSClientCert_opts_window)

lemma config_of_fields:
  "Duration (config_of opt) = Duration opt"
  "SSLDuration (config_of opt) = SSLDuration opt"
  "MaxKeyAge (config_of opt) = MaxKeyAge opt"
  "SSLCADuration (config_of opt) = SSLCADuration opt"
  "SSLCA (config_of opt) = SSLCA opt"
  "SSLKey (config_of opt) = SSLKey opt"
  "SSLCert (config_of opt) = SSLCert opt"
  by (simp_all add: config_of_def options.defs config.defs)

lemma getConf_Inr:
  assumes "SSLCA opt \<noteq> []" "SSLKey opt \<noteq> []" "SSLCert opt \<noteq> []"
  shows "\<exists>conf. fst (getConf env (Inr opt)) = Inr conf
           \<and> SSLDuration conf = SSLDuration opt
           \<and> Duration conf = Duration opt
           \<and> userRegex conf = userRegex_re"
  using assms
  by (cases "validateExtensions (Extensions (config_of opt))")
     (simp add: getConf_def Let_def config_of_fields)

theorem negative_sslduration_is_100_years_witness:
  "sint (SSLDuration ((config_of viper_defaults)\<lparr>SSLDuration := - 1\<rparr>)) < 0
   \<and> sint (tlsDur (main_durations ((config_of viper_defaults)\<lparr>SSLDuration := - 1\<rparr>)))
     = hundred_years_ns
   \<and> NotAfter (signTLSClientCert_opts sample_env
         (main_durations ((config_of viper_defaults)\<lparr>SSLDuration := - 1\<rparr>))
         \<lparr> req_Subject_CommonName = ''alice'', req_PublicKey = ''pk-alice'',
           req_Signature = ''good'' \<rparr> 2)
       - NotBefore (signTLSClientCert_opts sample_env
         (main_durations ((config_of viper_defaults)\<lparr>SSLDuration := - 1\<rparr>))
         \<lparr> req_Subject_CommonName = ''alice'', req_PublicKey = ''pk-alice'',
           req_Signature = ''good'' \<rparr> 2)
     = hundred_years_ns"
  using negative_sslduration_is_100_years [where
      conf = "(config_of viper_defaults)\<lparr>SSLDuration := - 1\<rparr>" and env = sample_env
      and req = "\<lparr> req_Subject_CommonName = ''alice'', req_PublicKey = ''pk-alice'',
           req_Signature = ''good'' \<rparr>" and serial = 2]
  by simp

text \<open>
  The claim as first stated, with the SSH option \<^verbatim>\<open>duration\<close> included, fails:
  \<^verbatim>\<open>main\<close> converts \<^verbatim>\<open>conf.Duration\<close> with no test of its sign, and \<^verbatim>\<open>duration = -1\<close>
  gives a window of minus one second, not of 100 years.
\<close>

theorem negative_duration_is_not_100_years:
  "sint (Duration ((config_of viper_defaults)\<lparr>Duration := - 1\<rparr>)) < 0
   \<and> sint (dur (main_durations ((config_of viper_defaults)\<lparr>Duration := - 1\<rparr>)))
       = - 1000000000
   \<and> sint (dur (main_durations ((config_of viper_defaults)\<lparr>Duration := - 1\<rparr>)))
       \<noteq> hundred_years_ns"
  by (simp add: main_durations_dur Second_def hundred_years_ns_def)

text \<open>
  Claim C8 (the code departs from it). \<^verbatim>\<open>init\<close> sets the default of \<^verbatim>\<open>sslduration\<close> to
  \<^verbatim>\<open>12*60\<close>, under the comment "12 hour default", and \<^verbatim>\<open>main\<close> reads the option in
  seconds: with no \<^verbatim>\<open>sslduration\<close> in the config file the window is 720 seconds, twelve
  minutes, and so is the distance from \<^verbatim>\<open>NotBefore\<close> to \<^verbatim>\<open>NotAfter\<close> of an issued
  certificate; twelve hours would be 43200 seconds.
\<close>

theorem default_sslduration_is_720_seconds:
  "SSLDuration viper_defaults = 720
   \<and> (case fst (getConf env (Inr viper_defaults)) of
         Inl err \<Rightarrow> False
       | Inr conf \<Rightarrow>
           sint (tlsDur (main_durations conf)) = 720 * 1000000000
         \<and> NotAfter (signTLSClientCert_opts env (main_durations conf) req serial)
             - NotBefore (signTLSClientCert_opts env (main_durations conf) req serial)
           = 720 * 1000000000
         \<and> sint (tlsDur (main_durations conf)) \<noteq> 43200 * 1000000000)"
proof -
  have d: "SSLDuration viper_defaults = 720"
    by (simp add: viper_defaults_def)
  obtain conf where c: "fst (getConf env (Inr viper_defaults)) = Inr conf"
    and s: "SSLDuration conf = 720"
    using getConf_Inr [of viper_defaults env] by (auto simp: viper_defaults_def)
  have "sint (tlsDur (main_durations conf)) = 720 * 1000000000"
    by (simp add: main_durations_tlsDur s Second_def)
  then show ?thesis
    by (simp add: d c signTLSClientCert_opts_window)
qed

subsection \<open>The bootstrap, step by step\<close>

lemma ioutil_WriteFile_None:
  assumes "ioutil_WriteFile env name data perm st = (None, st')"
  shows "write_fault env name = None
       \<and> st' = st\<lparr>files := (files st)(name \<mapsto> data),
                   trace := trace st @ [WriteFile name data perm]\<rparr>"
  using assms by (auto simp: ioutil_WriteFile_def emit_def split: option.splits)

lemma ioutil_WriteFile_Some:
  assumes "ioutil_WriteFile env name data perm st = (Some e, st')"
  shows "st' = st"
  using assms by (auto simp: ioutil_WriteFile_def split: option.splits)

lemma genTLSCACert_begins:
  "\<exists>rest. trace (snd (genTLSCACert env conf st))
            = trace st @ TlsGenKey (SSLKeyCurve conf) # rest"
  by (auto simp: genTLSCACert_def Let_def emit_def ioutil_WriteFile_def
        split: sum.splits prod.splits option.splits)

lemma genTLSCACert_None:
  assumes "genTLSCACert env conf st = (None, st')"
  shows "\<exists>caKeyBytes caKey caCert der.
           tlsGenKey env (SSLKeyCurve conf) = Inr (caKeyBytes, caKey)
         \<and> tlsSignCert env (genTLSCACert_opts env conf caKey) = Inr (caCert, der)
         \<and> fst (dbSetTLSSerial env (db st) 1) = None
         \<and> db st' = snd (dbSetTLSSerial env (db st) 1)
         \<and> files st' = (files st)(SSLKey conf \<mapsto> caKeyBytes, SSLCert conf \<mapsto> caCert,
                                   SSLCA conf \<mapsto> caCert)
         \<and> trace st' = trace st @
               [TlsGenKey (SSLKeyCurve conf),
                TlsSignCert (genTLSCACert_opts env conf caKey),
                WriteFile (SSLKey conf) caKeyBytes mode_0600,
                WriteFile (SSLCert conf) caCert mode_0644,
                WriteFile (SSLCA conf) caCert mode_0644,
                DbSetTLSSerial 1]"
proof -
  let ?st0 = "emit (TlsGenKey (SSLKeyCurve conf)) st"
  from assms obtain caKeyBytes caKey where
    k: "tlsGenKey env (SSLKeyCurve conf) = Inr (caKeyBytes, caKey)"
    by (cases "tlsGenKey env (SSLKeyCurve conf)") (auto simp: genTLSCACert_def Let_def)
  let ?opts = "genTLSCACert_opts env conf caKey"
  let ?st1 = "emit (TlsSignCert ?opts) ?st0"
  from assms k obtain caCert der where
    s: "tlsSignCert env ?opts = Inr (caCert, der)"
    by (cases "tlsSignCert env ?opts") (auto simp: genTLSCACert_def Let_def)
  note unf = genTLSCACert_def Let_def k s
  have ser: "Serial ?opts = 1" by (simp add: genTLSCACert_opts_def Let_def)
  obtain e1 s1 where w1: "ioutil_WriteFile env (SSLKey conf) caKeyBytes mode_0600 ?st1 = (e1, s1)"
    by (cases "ioutil_WriteFile env (SSLKey conf) caKeyBytes mode_0600 ?st1")
  from assms w1 have e1: "e1 = None" by (cases e1) (simp_all add: unf)
  note w1n = ioutil_WriteFile_None [OF w1 [unfolded e1]]
  obtain e2 s2 where w2: "ioutil_WriteFile env (SSLCert conf) caCert mode_0644 s1 = (e2, s2)"
    by (cases "ioutil_WriteFile env (SSLCert conf) caCert mode_0644 s1")
  from assms w1 e1 w2 have e2: "e2 = None" by (cases e2) (simp_all add: unf)
  note w2n = ioutil_WriteFile_None [OF w2 [unfolded e2]]
  obtain e3 s3 where w3: "ioutil_WriteFile env (SSLCA conf) caCert mode_0644 s2 = (e3, s3)"
    by (cases "ioutil_WriteFile env (SSLCA conf) caCert mode_0644 s2")
  from assms w1 e1 w2 e2 w3 have e3: "e3 = None" by (cases e3) (simp_all add: unf)
  note w3n = ioutil_WriteFile_None [OF w3 [unfolded e3]]
  have d3: "db s3 = db st" and f3: "files s3 = (files st)(SSLKey conf \<mapsto> caKeyBytes,
        SSLCert conf \<mapsto> caCert, SSLCA conf \<mapsto> caCert)"
    and t3: "trace s3 = trace st @
               [TlsGenKey (SSLKeyCurve conf), TlsSignCert ?opts,
                WriteFile (SSLKey conf) caKeyBytes mode_0600,
                WriteFile (SSLCert conf) caCert mode_0644,
                WriteFile (SSLCA conf) caCert mode_0644]"
    using w1n w2n w3n by (simp_all add: emit_def)
  obtain err db' where d: "dbSetTLSSerial env (db st) 1 = (err, db')"
    by (cases "dbSetTLSSerial env (db st) 1")
  from assms w1 e1 w2 e2 w3 e3 d d3 ser
  have "err = None" and "st' = emit (DbSetTLSSerial 1) (s3\<lparr>db := db'\<rparr>)"
    by (simp_all add: unf)
  then show ?thesis
    using k s d f3 t3 by (simp add: emit_def)
qed

lemma initTLSCerts_load_state:
  "snd (snd (initTLSCerts_load env conf errK errC st)) = st"
  by (simp add: initTLSCerts_load_def split: prod.splits option.splits)

lemma initTLSCerts_load_fallback:
  assumes "\<not> (os_IsNotExist errK \<and> \<not> os_IsNotExist errC)"
    and "os_IsNotExist (os_Stat env st (SSLCA conf))"
  shows "initTLSCerts_load env conf errK errC st =
           ((True,
             Some (''discrete ca cert not supported with automatic cert generation. Using sslcert file as ca cert: ''
                   @ SSLCert conf)),
            conf\<lparr>SSLCA := SSLCert conf\<rparr>, st)"
  using assms by (simp add: initTLSCerts_load_def)

lemma loadTLSCA_None:
  assumes "loadTLSCA env conf st = (None, conf')"
  shows "\<exists>keyPem keyDer key certPem certDer cert.
           ioutil_ReadFile env st (SSLKey conf) = Inr keyPem
         \<and> pem_Decode env keyPem = Some keyDer
         \<and> ParseECPrivateKey env keyDer = Inr key
         \<and> ioutil_ReadFile env st (SSLCert conf) = Inr certPem
         \<and> pem_Decode env certPem = Some certDer
         \<and> ParseCertificate env certDer = Inr cert
         \<and> conf' = conf\<lparr>tlsCAKey := Some key, tlsCACert := Some cert\<rparr>"
  using assms
  by (auto simp: loadTLSCA_def Let_def split: sum.splits option.splits)

lemma genTLSCACert_opts_fields:
  "CA (genTLSCACert_opts env conf caKey) = None"
  "CAKey (genTLSCACert_opts env conf caKey) = Some caKey"
  "CSR (genTLSCACert_opts env conf caKey) = None"
  "CN (genTLSCACert_opts env conf caKey) = ''curse''"
  "IsCA (genTLSCACert_opts env conf caKey) = True"
  "SAN (genTLSCACert_opts env conf caKey) = SSLCertHostname conf"
  "Serial (genTLSCACert_opts env conf caKey) = 1"
  "NotBefore (genTLSCACert_opts env conf caKey) = time_Now env"
  "NotAfter (genTLSCACert_opts env conf caKey)
     = time_Add (time_Now env) (SSLCADuration conf * 24 * Hour)"
  by (simp_all add: genTLSCACert_opts_def Let_def)

lemma sint_days:
  assumes "- 106751 \<le> sint (d :: 64 word)" "sint d \<le> 106751"
  shows "sint (d * 24 * Hour) = sint d * 86400000000000"
proof -
  have h: "d * 24 * Hour = d * 86400000000000"
    by (simp add: Hour_def Second_def)
  have s: "sint (86400000000000 :: 64 word) = 86400000000000" by simp
  have lo: "- (2 ^ 63) \<le> sint d * 86400000000000" using assms(1) by simp
  have hi: "sint d * 86400000000000 < 2 ^ 63" using assms(2) by simp
  have "sint (d * 86400000000000) = signed_take_bit 63 (sint d * sint (86400000000000 :: 64 word))"
    by (simp add: sint_word_ariths)
  also have "\<dots> = sint d * 86400000000000"
    unfolding s using lo hi by (simp add: signed_take_bit_int_eq_self)
  finally show ?thesis by (simp add: h)
qed

lemma initTLSCerts_generates_iff:
  "(\<exists>curve. TlsGenKey curve
        \<in> set (drop (length (trace st)) (trace (snd (snd (initTLSCerts env conf st))))))
     \<longleftrightarrow> os_IsNotExist (os_Stat env st (SSLKey conf))
         \<and> os_IsNotExist (os_Stat env st (SSLCert conf))"
proof (cases "os_IsNotExist (os_Stat env st (SSLKey conf))
         \<and> os_IsNotExist (os_Stat env st (SSLCert conf))")
  case True
  obtain rest where r: "trace (snd (genTLSCACert env conf st))
            = trace st @ TlsGenKey (SSLKeyCurve conf) # rest"
    using genTLSCACert_begins by blast
  obtain err s1 where g: "genTLSCACert env conf st = (err, s1)"
    by (cases "genTLSCACert env conf st")
  have "snd (snd (initTLSCerts env conf st)) = s1"
    using True g initTLSCerts_load_state [of env conf _ _ s1]
    by (cases err) (simp_all add: initTLSCerts_def Let_def)
  with r g True show ?thesis by auto
next
  case False
  then have "snd (snd (initTLSCerts env conf st)) = st"
    using initTLSCerts_load_state [of env conf _ _ st]
    by (auto simp: initTLSCerts_def Let_def)
  with False show ?thesis by simp
qed

lemma initTLSCerts_generated:
  assumes "os_IsNotExist (os_Stat env st (SSLKey conf))"
    and "os_IsNotExist (os_Stat env st (SSLCert conf))"
    and "fst (fst (initTLSCerts env conf st))"
  shows "genTLSCACert env conf st = (None, snd (snd (initTLSCerts env conf st)))"
proof -
  obtain err s1 where g: "genTLSCACert env conf st = (err, s1)"
    by (cases "genTLSCACert env conf st")
  from assms g have e: "err = None"
    by (cases err) (simp_all add: initTLSCerts_def Let_def)
  have "snd (snd (initTLSCerts env conf st)) = s1"
    using assms(1,2) g e initTLSCerts_load_state [of env conf _ _ s1]
    by (simp add: initTLSCerts_def Let_def)
  with g e show ?thesis by simp
qed

lemma initTLSCerts_fallback:
  assumes "\<not> os_IsNotExist (os_Stat env st (SSLKey conf))"
    and "os_IsNotExist (os_Stat env st (SSLCA conf))"
  shows "initTLSCerts env conf st =
           ((True,
             Some (''discrete ca cert not supported with automatic cert generation. Using sslcert file as ca cert: ''
                   @ SSLCert conf)),
            conf\<lparr>SSLCA := SSLCert conf\<rparr>, st)"
  using assms by (simp add: initTLSCerts_def Let_def initTLSCerts_load_fallback)

lemma tlsSignCert_model_CA:
  assumes "tlsSignCert_model F (genTLSCACert_opts env conf caKey) = Inr (pem, der)"
  shows "\<exists>cert. pem = pemOf F cert \<and> der = derOf F cert
           \<and> Subject_CommonName cert = ''curse''
           \<and> DNSNames cert = [SSLCertHostname conf]
           \<and> SerialNumber cert = 1
           \<and> cert_IsCA cert
           \<and> cert_NotBefore cert = time_Now env
           \<and> cert_NotAfter cert = time_Add (time_Now env) (SSLCADuration conf * 24 * Hour)
           \<and> cert_PublicKey cert = key_Public caKey
           \<and> AuthorityKey cert = cert_PublicKey cert"
  using assms
  by (auto simp: tlsSignCert_model_def factory_certificate_def genTLSCACert_opts_fields
        split: option.splits)

lemma default_conf_fields:
  "SSLKey default_conf = ''/opt/curse/etc/cursed.key''"
  "SSLCert default_conf = ''/opt/curse/etc/cursed.crt''"
  "SSLCA default_conf = ''/opt/curse/etc/cursed.crt''"
  "SSLKeyCurve default_conf = ''p384''"
  "SSLCertHostname default_conf = ''localhost''"
  "SSLCADuration default_conf = 730"
  "tlsCAKey default_conf = None"
  "tlsCACert default_conf = None"
  by (simp_all add: default_conf_def main_durations_def config_of_def
        viper_defaults_def options.defs config.defs Let_def)

lemma sample_stat:
  "os_Stat sample_env st name = (if files st name = None then Some ErrNotExist else None)"
  by (simp add: os_Stat_def sample_env_fields)

lemma sample_bootstrap:
  assumes "SSLKey conf = ''/opt/curse/etc/cursed.key''"
    and "SSLCert conf = ''/opt/curse/etc/cursed.crt''"
    and "SSLCA conf = ''/opt/curse/etc/cursed.crt''"
    and "SSLKeyCurve conf = ''p384''"
  shows "initTLSCerts sample_env conf fresh_state =
           ((True, None),
            conf\<lparr>tlsCAKey := Some sample_key, tlsCACert := Some (sample_cert ''curse'' ''pk'')\<rparr>,
            \<lparr> db = \<lparr> certserial = Some 1, pubkeybirthdays = Map.empty \<rparr>,
              files = [''/opt/curse/etc/cursed.key'' \<mapsto> ''PEM:key'',
                       ''/opt/curse/etc/cursed.crt'' \<mapsto> ''PEM:curse''],
              trace = [TlsGenKey ''p384'',
                       TlsSignCert (genTLSCACert_opts sample_env conf sample_key),
                       WriteFile ''/opt/curse/etc/cursed.key'' ''PEM:key'' mode_0600,
                       WriteFile ''/opt/curse/etc/cursed.crt'' ''PEM:curse'' mode_0644,
                       WriteFile ''/opt/curse/etc/cursed.crt'' ''PEM:curse'' mode_0644,
                       DbSetTLSSerial 1] \<rparr>)"
proof -
  let ?st1 = "\<lparr> db = \<lparr> certserial = Some 1, pubkeybirthdays = Map.empty \<rparr>,
              files = [''/opt/curse/etc/cursed.key'' \<mapsto> ''PEM:key'',
                       ''/opt/curse/etc/cursed.crt'' \<mapsto> ''PEM:curse''],
              trace = [TlsGenKey ''p384'',
                       TlsSignCert (genTLSCACert_opts sample_env conf sample_key),
                       WriteFile ''/opt/curse/etc/cursed.key'' ''PEM:key'' mode_0600,
                       WriteFile ''/opt/curse/etc/cursed.crt'' ''PEM:curse'' mode_0644,
                       WriteFile ''/opt/curse/etc/cursed.crt'' ''PEM:curse'' mode_0644,
                       DbSetTLSSerial 1] \<rparr>"
  have k: "sample_key\<lparr>key_Curve := ''p384''\<rparr> = sample_key"
    by (simp add: sample_key_def)
  have sg: "tlsSignCert_model sample_factory (genTLSCACert_opts sample_env conf sample_key)
              = Inr (''PEM:curse'', ''curse'')"
    by (simp add: tlsSignCert_model_def factory_certificate_def
          genTLSCACert_opts_fields sample_factory_def)
  have g: "genTLSCACert sample_env conf fresh_state = (None, ?st1)"
    using assms
    by (simp add: genTLSCACert_def Let_def sample_env_fields k sg ioutil_WriteFile_def
          emit_def fresh_state_def genTLSCACert_opts_fields dbSetTLSSerial_model_def)
  have l: "loadTLSCA sample_env conf ?st1 =
             (None, conf\<lparr>tlsCAKey := Some sample_key,
                         tlsCACert := Some (sample_cert ''curse'' ''pk'')\<rparr>)"
    using assms
    by (simp add: loadTLSCA_def ioutil_ReadFile_def sample_env_fields Let_def)
  have s0: "os_IsNotExist (os_Stat sample_env fresh_state (SSLKey conf))"
    "os_IsNotExist (os_Stat sample_env fresh_state (SSLCert conf))"
    by (simp_all add: sample_stat fresh_state_def os_IsNotExist_def)
  have s1: "\<not> os_IsNotExist (os_Stat sample_env ?st1 (SSLCA conf))"
    using assms by (simp add: sample_stat os_IsNotExist_def)
  show ?thesis
    using s0 s1 by (simp add: initTLSCerts_def Let_def g initTLSCerts_load_def l)
qed

lemma installed_files:
  "files installed_state = [''/opt/curse/etc/cursed.key'' \<mapsto> ''PEM:key'',
                            ''/opt/curse/etc/cursed.crt'' \<mapsto> ''PEM:curse'']"
  by (simp add: installed_state_def)

lemma sample_installed:
  "initTLSCerts sample_env default_conf installed_state =
     ((True, None),
      default_conf\<lparr>tlsCAKey := Some sample_key, tlsCACert := Some (sample_cert ''curse'' ''pk'')\<rparr>,
      installed_state)"
proof -
  have l: "loadTLSCA sample_env default_conf installed_state =
             (None, default_conf\<lparr>tlsCAKey := Some sample_key,
                         tlsCACert := Some (sample_cert ''curse'' ''pk'')\<rparr>)"
    by (simp add: loadTLSCA_def ioutil_ReadFile_def sample_env_fields Let_def
          default_conf_fields installed_files)
  show ?thesis
    by (simp add: initTLSCerts_def Let_def initTLSCerts_load_def l sample_stat
          os_IsNotExist_def default_conf_fields installed_files)
qed

text \<open>
  Claim C5 (the code departs from it). With the key and the certificate installed and
  \<^verbatim>\<open>sslca\<close> naming a separate file that does not exist, \<^verbatim>\<open>initTLSCerts\<close> returns
  \<^verbatim>\<open>true\<close> with its warning from line 376, before the call of \<^verbatim>\<open>loadTLSCA\<close>:
  \<^verbatim>\<open>conf.tlsCAKey\<close> and \<^verbatim>\<open>conf.tlsCACert\<close> are still \<^verbatim>\<open>nil\<close> when \<^verbatim>\<open>main\<close> starts serving. On
  the same host with \<^verbatim>\<open>sslca\<close> at its default both are loaded.
\<close>

theorem initTLSCerts_fallback_loads_no_CA:
  "fst (initTLSCerts sample_env (default_conf\<lparr>SSLCA := ''/opt/curse/etc/ca.crt''\<rparr>)
          installed_state)
     = (True, Some (''discrete ca cert not supported with automatic cert generation. Using sslcert file as ca cert: ''
                    @ ''/opt/curse/etc/cursed.crt''))
   \<and> tlsCAKey (fst (snd (initTLSCerts sample_env
          (default_conf\<lparr>SSLCA := ''/opt/curse/etc/ca.crt''\<rparr>) installed_state))) = None
   \<and> tlsCACert (fst (snd (initTLSCerts sample_env
          (default_conf\<lparr>SSLCA := ''/opt/curse/etc/ca.crt''\<rparr>) installed_state))) = None
   \<and> SSLCA (fst (snd (initTLSCerts sample_env
          (default_conf\<lparr>SSLCA := ''/opt/curse/etc/ca.crt''\<rparr>) installed_state)))
       = ''/opt/curse/etc/cursed.crt''
   \<and> fst (initTLSCerts sample_env default_conf installed_state) = (True, None)
   \<and> tlsCAKey (fst (snd (initTLSCerts sample_env default_conf installed_state)))
       = Some sample_key
   \<and> tlsCACert (fst (snd (initTLSCerts sample_env default_conf installed_state)))
       = Some (sample_cert ''curse'' ''pk'')"
proof -
  have f: "initTLSCerts sample_env (default_conf\<lparr>SSLCA := ''/opt/curse/etc/ca.crt''\<rparr>)
             installed_state
           = ((True,
               Some (''discrete ca cert not supported with automatic cert generation. Using sslcert file as ca cert: ''
                     @ SSLCert (default_conf\<lparr>SSLCA := ''/opt/curse/etc/ca.crt''\<rparr>))),
              (default_conf\<lparr>SSLCA := ''/opt/curse/etc/ca.crt''\<rparr>)
                \<lparr>SSLCA := SSLCert (default_conf\<lparr>SSLCA := ''/opt/curse/etc/ca.crt''\<rparr>)\<rparr>,
              installed_state)"
    by (rule initTLSCerts_fallback)
       (simp_all add: sample_stat os_IsNotExist_def default_conf_fields installed_files)
  show ?thesis
    unfolding f sample_installed
    by (simp add: default_conf_fields)
qed

text \<open>
  Claim C6, as amended. \<^verbatim>\<open>initTLSCerts\<close> generates CA material (calls \<^verbatim>\<open>genTLSCACert\<close>,
  which starts with the key generation) if and only if \<^verbatim>\<open>os.Stat\<close> reports both the
  \<^verbatim>\<open>SSLKey\<close> file and the \<^verbatim>\<open>SSLCert\<close> file as not existing. The certificate asked of the
  factory is self-signed (signed with the generated key, no issuer certificate, CA
  flag), with CommonName \<^verbatim>\<open>curse\<close>, SAN the configured \<^verbatim>\<open>SSLCertHostname\<close>, serial 1 and
  validity from now to now plus \<^verbatim>\<open>SSLCADuration\<close> days, as long as that many days fit a
  \<^verbatim>\<open>time.Duration\<close> (at most 106751 days either way). When the bootstrap succeeds the key
  file was written with permission argument 0600, the certificate file (and the CA file)
  with 0644, and the last step set the serial counter of the store to 1.
\<close>

theorem initTLSCerts_bootstrap:
  "((\<exists>curve. TlsGenKey curve
        \<in> set (drop (length (trace st)) (trace (snd (snd (initTLSCerts env conf st))))))
     \<longleftrightarrow> os_IsNotExist (os_Stat env st (SSLKey conf))
         \<and> os_IsNotExist (os_Stat env st (SSLCert conf)))
   \<and> (os_IsNotExist (os_Stat env st (SSLKey conf))
        \<and> os_IsNotExist (os_Stat env st (SSLCert conf))
        \<and> fst (fst (initTLSCerts env conf st))
      \<longrightarrow> (\<exists>caKeyBytes caKey caCert der.
             tlsGenKey env (SSLKeyCurve conf) = Inr (caKeyBytes, caKey)
           \<and> tlsSignCert env (genTLSCACert_opts env conf caKey) = Inr (caCert, der)
           \<and> fst (dbSetTLSSerial env (db st) 1) = None
           \<and> db (snd (snd (initTLSCerts env conf st))) = snd (dbSetTLSSerial env (db st) 1)
           \<and> files (snd (snd (initTLSCerts env conf st)))
               = (files st)(SSLKey conf \<mapsto> caKeyBytes, SSLCert conf \<mapsto> caCert,
                            SSLCA conf \<mapsto> caCert)
           \<and> trace (snd (snd (initTLSCerts env conf st))) = trace st @
               [TlsGenKey (SSLKeyCurve conf),
                TlsSignCert (genTLSCACert_opts env conf caKey),
                WriteFile (SSLKey conf) caKeyBytes mode_0600,
                WriteFile (SSLCert conf) caCert mode_0644,
                WriteFile (SSLCA conf) caCert mode_0644,
                DbSetTLSSerial 1]
           \<and> (dbSetTLSSerial env = dbSetTLSSerial_model False
                \<longrightarrow> certserial (db (snd (snd (initTLSCerts env conf st)))) = Some 1)
           \<and> (tlsSignCert env = tlsSignCert_model F
                \<longrightarrow> (\<exists>cert. caCert = pemOf F cert
                       \<and> Subject_CommonName cert = ''curse''
                       \<and> DNSNames cert = [SSLCertHostname conf]
                       \<and> SerialNumber cert = 1
                       \<and> cert_IsCA cert
                       \<and> cert_NotBefore cert = time_Now env
                       \<and> cert_NotAfter cert = NotAfter (genTLSCACert_opts env conf caKey)
                       \<and> AuthorityKey cert = cert_PublicKey cert))))
   \<and> CA (genTLSCACert_opts env conf k) = None
   \<and> CAKey (genTLSCACert_opts env conf k) = Some k
   \<and> IsCA (genTLSCACert_opts env conf k)
   \<and> CN (genTLSCACert_opts env conf k) = ''curse''
   \<and> SAN (genTLSCACert_opts env conf k) = SSLCertHostname conf
   \<and> Serial (genTLSCACert_opts env conf k) = 1
   \<and> NotBefore (genTLSCACert_opts env conf k) = time_Now env
   \<and> (- 106751 \<le> sint (SSLCADuration conf) \<and> sint (SSLCADuration conf) \<le> 106751
      \<longrightarrow> NotAfter (genTLSCACert_opts env conf k)
            = time_Now env + sint (SSLCADuration conf) * (24 * 3600 * 1000000000))
   \<and> mode_0600 = 384 \<and> mode_0644 = 420"
proof (intro conjI impI)
  show "(\<exists>curve. TlsGenKey curve
        \<in> set (drop (length (trace st)) (trace (snd (snd (initTLSCerts env conf st))))))
     \<longleftrightarrow> os_IsNotExist (os_Stat env st (SSLKey conf))
         \<and> os_IsNotExist (os_Stat env st (SSLCert conf))"
    by (rule initTLSCerts_generates_iff)
next
  assume a: "os_IsNotExist (os_Stat env st (SSLKey conf))
        \<and> os_IsNotExist (os_Stat env st (SSLCert conf))
        \<and> fst (fst (initTLSCerts env conf st))"
  let ?st' = "snd (snd (initTLSCerts env conf st))"
  from a have "genTLSCACert env conf st = (None, ?st')"
    by (simp add: initTLSCerts_generated)
  from genTLSCACert_None [OF this]
  obtain caKeyBytes caKey caCert der where
      k: "tlsGenKey env (SSLKeyCurve conf) = Inr (caKeyBytes, caKey)"
    and s: "tlsSignCert env (genTLSCACert_opts env conf caKey) = Inr (caCert, der)"
    and e: "fst (dbSetTLSSerial env (db st) 1) = None"
    and d: "db ?st' = snd (dbSetTLSSerial env (db st) 1)"
    and f: "files ?st' = (files st)(SSLKey conf \<mapsto> caKeyBytes, SSLCert conf \<mapsto> caCert,
                                   SSLCA conf \<mapsto> caCert)"
    and t: "trace ?st' = trace st @
               [TlsGenKey (SSLKeyCurve conf),
                TlsSignCert (genTLSCACert_opts env conf caKey),
                WriteFile (SSLKey conf) caKeyBytes mode_0600,
                WriteFile (SSLCert conf) caCert mode_0644,
                WriteFile (SSLCA conf) caCert mode_0644,
                DbSetTLSSerial 1]"
    by blast
  have m: "dbSetTLSSerial env = dbSetTLSSerial_model False
             \<longrightarrow> certserial (db ?st') = Some 1"
    using d by (simp add: dbSetTLSSerial_model_def)
  have c: "tlsSignCert env = tlsSignCert_model F
                \<longrightarrow> (\<exists>cert. caCert = pemOf F cert
                       \<and> Subject_CommonName cert = ''curse''
                       \<and> DNSNames cert = [SSLCertHostname conf]
                       \<and> SerialNumber cert = 1
                       \<and> cert_IsCA cert
                       \<and> cert_NotBefore cert = time_Now env
                       \<and> cert_NotAfter cert = NotAfter (genTLSCACert_opts env conf caKey)
                       \<and> AuthorityKey cert = cert_PublicKey cert)"
  proof
    assume "tlsSignCert env = tlsSignCert_model F"
    with s have "tlsSignCert_model F (genTLSCACert_opts env conf caKey) = Inr (caCert, der)"
      by simp
    from tlsSignCert_model_CA [OF this] show "\<exists>cert. caCert = pemOf F cert
                       \<and> Subject_CommonName cert = ''curse''
                       \<and> DNSNames cert = [SSLCertHostname conf]
                       \<and> SerialNumber cert = 1
                       \<and> cert_IsCA cert
                       \<and> cert_NotBefore cert = time_Now env
                       \<and> cert_NotAfter cert = NotAfter (genTLSCACert_opts env conf caKey)
                       \<and> AuthorityKey cert = cert_PublicKey cert"
      by (auto simp: genTLSCACert_opts_fields)
  qed
  show "\<exists>caKeyBytes caKey caCert der.
             tlsGenKey env (SSLKeyCurve conf) = Inr (caKeyBytes, caKey)
           \<and> tlsSignCert env (genTLSCACert_opts env conf caKey) = Inr (caCert, der)
           \<and> fst (dbSetTLSSerial env (db st) 1) = None
           \<and> db (snd (snd (initTLSCerts env conf st))) = snd (dbSetTLSSerial env (db st) 1)
           \<and> files (snd (snd (initTLSCerts env conf st)))
               = (files st)(SSLKey conf \<mapsto> caKeyBytes, SSLCert conf \<mapsto> caCert,
                            SSLCA conf \<mapsto> caCert)
           \<and> trace (snd (snd (initTLSCerts env conf st))) = trace st @
               [TlsGenKey (SSLKeyCurve conf),
                TlsSignCert (genTLSCACert_opts env conf caKey),
                WriteFile (SSLKey conf) caKeyBytes mode_0600,
                WriteFile (SSLCert conf) caCert mode_0644,
                WriteFile (SSLCA conf) caCert mode_0644,
                DbSetTLSSerial 1]
           \<and> (dbSetTLSSerial env = dbSetTLSSerial_model False
                \<longrightarrow> certserial (db (snd (snd (initTLSCerts env conf st)))) = Some 1)
           \<and> (tlsSignCert env = tlsSignCert_model F
                \<longrightarrow> (\<exists>cert. caCert = pemOf F cert
                       \<and> Subject_CommonName cert = ''curse''
                       \<and> DNSNames cert = [SSLCertHostname conf]
                       \<and> SerialNumber cert = 1
                       \<and> cert_IsCA cert
                       \<and> cert_NotBefore cert = time_Now env
                       \<and> cert_NotAfter cert = NotAfter (genTLSCACert_opts env conf caKey)
                       \<and> AuthorityKey cert = cert_PublicKey cert))"
    using k s e d f t m c by blast
next
  assume "- 106751 \<le> sint (SSLCADuration conf) \<and> sint (SSLCADuration conf) \<le> 106751"
  then show "NotAfter (genTLSCACert_opts env conf k)
            = time_Now env + sint (SSLCADuration conf) * (24 * 3600 * 1000000000)"
    by (simp add: genTLSCACert_opts_fields time_Add_def sint_days)
qed (simp_all add: genTLSCACert_opts_fields mode_0600_def mode_0644_def)

theorem initTLSCerts_bootstrap_witness:
  "(\<exists>curve. TlsGenKey curve
        \<in> set (drop (length (trace fresh_state))
                 (trace (snd (snd (initTLSCerts sample_env default_conf fresh_state))))))
   \<and> fst (fst (initTLSCerts sample_env default_conf fresh_state))
   \<and> certserial (db (snd (snd (initTLSCerts sample_env default_conf fresh_state)))) = Some 1
   \<and> NotAfter (genTLSCACert_opts sample_env default_conf sample_key)
       = time_Now sample_env + 730 * (24 * 3600 * 1000000000)
   \<and> \<not> (\<exists>curve. TlsGenKey curve
        \<in> set (drop (length (trace installed_state))
                 (trace (snd (snd (initTLSCerts sample_env default_conf installed_state))))))"
proof -
  have n: "os_IsNotExist (os_Stat sample_env fresh_state (SSLKey default_conf))"
    "os_IsNotExist (os_Stat sample_env fresh_state (SSLCert default_conf))"
    by (simp_all add: sample_stat fresh_state_def os_IsNotExist_def)
  have i: "\<not> os_IsNotExist (os_Stat sample_env installed_state (SSLKey default_conf))"
    by (simp add: sample_stat installed_files os_IsNotExist_def default_conf_fields)
  have ok: "fst (fst (initTLSCerts sample_env default_conf fresh_state))"
    by (simp add: sample_bootstrap default_conf_fields)
  have d: "sint (SSLCADuration default_conf) = 730"
    by (simp add: default_conf_fields)
  show ?thesis
    using n i ok d
      initTLSCerts_bootstrap [where env = sample_env and conf = default_conf
        and st = fresh_state and F = sample_factory and k = sample_key]
      initTLSCerts_bootstrap [where env = sample_env and conf = default_conf
        and st = installed_state and F = sample_factory and k = sample_key]
    by (auto simp: sample_env_fields)
qed

text \<open>
  The claim as first stated, with a validity of \<^verbatim>\<open>SSLCADuration\<close> days whatever the
  option holds, fails: \<^verbatim>\<open>time.Duration(conf.SSLCADuration) * 24 * time.Hour\<close> is an int64
  count of nanoseconds and wraps around from 106752 days on. With \<^verbatim>\<open>sslcaduration =
  106752\<close> the bootstrap succeeds and asks for a certificate that ends before it begins.
\<close>

theorem genTLSCACert_validity_wraps:
  "sint (SSLCADuration (default_conf\<lparr>SSLCADuration := 106752\<rparr>)) = 106752
   \<and> fst (fst (initTLSCerts sample_env (default_conf\<lparr>SSLCADuration := 106752\<rparr>)
                 fresh_state))
   \<and> TlsSignCert (genTLSCACert_opts sample_env (default_conf\<lparr>SSLCADuration := 106752\<rparr>)
                     sample_key)
       \<in> set (trace (snd (snd (initTLSCerts sample_env
                 (default_conf\<lparr>SSLCADuration := 106752\<rparr>) fresh_state))))
   \<and> NotAfter (genTLSCACert_opts sample_env (default_conf\<lparr>SSLCADuration := 106752\<rparr>)
                 sample_key)
       - NotBefore (genTLSCACert_opts sample_env (default_conf\<lparr>SSLCADuration := 106752\<rparr>)
                 sample_key)
       = - 9223371273709551616
   \<and> NotAfter (genTLSCACert_opts sample_env (default_conf\<lparr>SSLCADuration := 106752\<rparr>)
                 sample_key)
       \<noteq> NotBefore (genTLSCACert_opts sample_env (default_conf\<lparr>SSLCADuration := 106752\<rparr>)
                 sample_key)
         + 106752 * (24 * 3600 * 1000000000)"
  by (simp add: sample_bootstrap default_conf_fields genTLSCACert_opts_fields time_Add_def
        Hour_def Second_def)

end
